theory Spec2Isabelle
  imports Main "HOL-Library.Sublist" "HOL-Library.Code_Target_Nat"
begin

section \<open>Python values used by \<open>update_database.py\<close>\<close>

subsection \<open>Strings\<close>

text \<open>
  A Python \<open>str\<close> is a sequence of Unicode code points, and \<open>len\<close> counts code points
  (the checkbox \<open>U+2610\<close> is one character, so the marker made of it and a space has
  length 2). A string is therefore a list of code points; \<open>py\<close> writes an ASCII literal.
\<close>

type_synonym pystr = "nat list"

definition py :: "string \<Rightarrow> pystr" where
  "py s = map of_char s"

text \<open>The two non-ASCII literals of the source: \<open>U+2610\<close> (ballot box) and \<open>U+25BC\<close>.\<close>

definition ballot_box :: nat where
  "ballot_box = 9744"

definition down_triangle :: nat where
  "down_triangle = 9660"

text \<open>\<open>str.isspace\<close> of one code point: the characters \<open>str.strip()\<close> removes.\<close>

definition isspace :: "nat \<Rightarrow> bool" where
  "isspace c =
     ((9 \<le> c \<and> c \<le> 13) \<or> (28 \<le> c \<and> c \<le> 32) \<or> c = 133 \<or> c = 160 \<or> c = 5760 \<or>
      (8192 \<le> c \<and> c \<le> 8202) \<or> c = 8232 \<or> c = 8233 \<or> c = 8239 \<or> c = 8287 \<or> c = 12288)"

text \<open>\<open>s.strip()\<close> and \<open>s.strip(chars)\<close> for a one-character \<open>chars\<close>.\<close>

definition strip :: "pystr \<Rightarrow> pystr" where
  "strip s = rev (dropWhile isspace (rev (dropWhile isspace s)))"

definition strip_char :: "nat \<Rightarrow> pystr \<Rightarrow> pystr" where
  "strip_char q s = rev (dropWhile (\<lambda>c. c = q) (rev (dropWhile (\<lambda>c. c = q) s)))"

text \<open>\<open>s.startswith(p)\<close>.\<close>

definition startswith :: "pystr \<Rightarrow> pystr \<Rightarrow> bool" where
  "startswith s p = (take (length p) s = p)"

text \<open>
  \<open>s.split(sep)\<close>: the pieces between the non-overlapping occurrences of \<open>sep\<close>, found
  from the left. The separator is a non-empty literal at every call of the source
  (Python raises \<open>ValueError\<close> for an empty one). \<open>cur\<close> is the piece being read.
\<close>

function split_from :: "pystr \<Rightarrow> pystr \<Rightarrow> pystr \<Rightarrow> pystr list" where
  "split_from sep cur [] = [cur]"
| "split_from sep cur (c # cs) =
     (if sep \<noteq> [] \<and> startswith (c # cs) sep
      then cur # split_from sep [] (drop (length sep) (c # cs))
      else split_from sep (cur @ [c]) cs)"
  by pat_completeness auto
termination
  by (relation "measure (\<lambda>(sep, cur, s). length s)") auto

definition split :: "pystr \<Rightarrow> pystr \<Rightarrow> pystr list" where
  "split s sep = split_from sep [] s"

text \<open>\<open>sep.join(parts)\<close>.\<close>

fun join :: "pystr \<Rightarrow> pystr list \<Rightarrow> pystr" where
  "join sep [] = []"
| "join sep [p] = p"
| "join sep (p # q # ps) = p @ sep @ join sep (q # ps)"

subsection \<open>Exceptions\<close>

text \<open>
  A raised exception is a value: \<open>Exception msg\<close> is the source's own
  \<open>raise Exception(msg)\<close>, the others are raised by the interpreter or a library.
\<close>

datatype error =
    Exception pystr
  | IndexError
  | KeyError pystr
  | AttributeError
  | JSONDecodeError
  | LibraryError pystr


subsection \<open>More string operations\<close>

text \<open>\<open>needle in s\<close>.\<close>

fun contains :: "pystr \<Rightarrow> pystr \<Rightarrow> bool" where
  "contains [] needle = (needle = [])"
| "contains (c # cs) needle = (startswith (c # cs) needle \<or> contains cs needle)"

text \<open>
  \<open>s.lower()\<close>, character by character. The source only asks whether the lowered line
  contains the ASCII words \<open>title\<close> and \<open>description\<close>, so what matters is which code
  points lower to ASCII letters: the letters \<open>A\<close> to \<open>Z\<close>, \<open>U+0130\<close> (lowered to \<open>i\<close>
  followed by \<open>U+0307\<close>) and the Kelvin sign \<open>U+212A\<close> (lowered to \<open>k\<close>). Every other code
  point lowers to code points outside ASCII and stands for itself here.
\<close>

definition lower_char :: "nat \<Rightarrow> pystr" where
  "lower_char c =
     (if 65 \<le> c \<and> c \<le> 90 then [c + 32]
      else if c = 304 then [105, 775]
      else if c = 8490 then [107]
      else [c])"

definition lower :: "pystr \<Rightarrow> pystr" where
  "lower s = concat (map lower_char s)"

text \<open>\<open>str(n)\<close> for an integer: its decimal digits, with a minus sign when negative.\<close>

function digits :: "nat \<Rightarrow> pystr" where
  "digits n = (if n < 10 then [48 + n] else digits (n div 10) @ [48 + n mod 10])"
  by pat_completeness auto
termination
  by (relation "measure id") auto

declare digits.simps [simp del]

definition str_int :: "int \<Rightarrow> pystr" where
  "str_int i = (if i < 0 then 45 # digits (nat (- i)) else digits (nat i))"

subsection \<open>Lists and dictionaries\<close>

text \<open>\<open>xs[i]\<close> for a non-negative index: \<open>IndexError\<close> out of range.\<close>

definition getitem :: "'a list \<Rightarrow> nat \<Rightarrow> error + 'a" where
  "getitem xs i = (if i < length xs then Inr (xs ! i) else Inl IndexError)"

text \<open>
  A \<open>dict\<close> keeps its keys in insertion order: it is a list of key/value pairs with
  distinct keys. \<open>d[k] = v\<close> overwrites in place or appends, \<open>d[k]\<close> raises \<open>KeyError\<close>
  on a missing key, \<open>d.get(k, default)\<close> does not.
\<close>

type_synonym ('k, 'v) dict = "('k \<times> 'v) list"

fun dict_set :: "('k, 'v) dict \<Rightarrow> 'k \<Rightarrow> 'v \<Rightarrow> ('k, 'v) dict" where
  "dict_set [] k v = [(k, v)]"
| "dict_set ((k', v') # d) k v =
     (if k' = k then (k, v) # d else (k', v') # dict_set d k v)"

definition dict_getitem :: "(pystr, 'v) dict \<Rightarrow> pystr \<Rightarrow> error + 'v" where
  "dict_getitem d k = (case map_of d k of None \<Rightarrow> Inl (KeyError k) | Some v \<Rightarrow> Inr v)"

definition dict_get :: "('k, 'v) dict \<Rightarrow> 'k \<Rightarrow> 'v \<Rightarrow> 'v" where
  "dict_get d k dflt = (case map_of d k of None \<Rightarrow> dflt | Some v \<Rightarrow> v)"

subsection \<open>Decoded JSON\<close>

text \<open>
  What \<open>json.loads\<close> returns: \<open>None\<close>, a \<open>bool\<close>, a number (kept as its literal), a
  \<open>str\<close>, a \<open>list\<close> or a \<open>dict\<close>.
\<close>

datatype json =
    JNull
  | JBool bool
  | JNumber pystr
  | JString pystr
  | JArray "json list"
  | JObject "(pystr \<times> json) list"

text \<open>
  \<open>obj.get(k, default)\<close> on a decoded value: only a \<open>dict\<close> has the method, on anything
  else the attribute lookup raises \<open>AttributeError\<close>.
\<close>

definition json_get :: "json \<Rightarrow> pystr \<Rightarrow> json \<Rightarrow> error + json" where
  "json_get obj k dflt =
     (case obj of JObject d \<Rightarrow> Inr (dict_get d k dflt) | _ \<Rightarrow> Inl AttributeError)"

subsection \<open>HTTP\<close>

text \<open>
  A \<open>requests.Response\<close>: \<open>status_code\<close>, \<open>text\<close> (here \<open>raw_text\<close>) and the value of \<open>response.json()\<close>,
  typed by the endpoint; \<open>None\<close> when the body does not decode, which makes
  \<open>response.json()\<close> raise. A call of \<open>requests.get\<close> or \<open>requests.post\<close> can itself
  raise (no connection), so an endpoint answers with an exception or a response.
\<close>

record 'a response =
  status_code :: int
  raw_text :: pystr
  body :: "'a option"

definition response_json :: "'a response \<Rightarrow> error + 'a" where
  "response_json response =
     (case body response of None \<Rightarrow> Inl JSONDecodeError | Some v \<Rightarrow> Inr v)"

text \<open>
  The check after every request of the source:
  \<^verbatim>\<open>if response.status_code != 200: raise Exception(f"{what}: {response.status_code} - {response.text}")\<close>
\<close>

definition failure_message :: "pystr \<Rightarrow> 'a response \<Rightarrow> pystr" where
  "failure_message what response =
     what @ py '': '' @ str_int (status_code response) @ py '' - '' @ raw_text response"

definition check_status :: "pystr \<Rightarrow> 'a response \<Rightarrow> error + unit" where
  "check_status what response =
     (if status_code response \<noteq> 200 then Inl (Exception (failure_message what response))
      else Inr ())"


section \<open>The world of one run\<close>

subsection \<open>Document store objects\<close>

text \<open>
  The objects of the Notion API, by the fields the source reads.
  A block has a \<open>type\<close> (\<open>block.get('type', 'unknown')\<close> allows for its absence) and, under
  the key named by its type, a \<open>rich_text\<close> list of runs; a run is kept as its
  \<open>plain_text\<close>. Of a page and of a database the source reads the title runs, for its
  progress messages only; \<open>None\<close> is the absent key, for which \<open>.get\<close> supplies \<open>[{}]\<close>.
\<close>

record block =
  block_type :: "pystr option"
  rich_text :: "pystr list"

record page =
  page_title :: "pystr list option"

record prop_details =
  prop_type :: pystr
  select_options :: "pystr list"

record database =
  database_title :: "pystr list option"
  database_properties :: "(pystr, prop_details) dict"

text \<open>
  The body of the record-creation request: \<open>parent.database_id\<close>, the \<open>properties\<close>
  dictionary and the text of the one paragraph under \<open>children\<close>. A property value is
  one of the three shapes the source writes.
\<close>

datatype prop_value =
    Title json
  | Select pystr
  | Date pystr

record payload =
  parent_database_id :: pystr
  payload_properties :: "(pystr, prop_value) dict"
  children_content :: json

datatype request =
    GET pystr
  | POST pystr payload

text \<open>A \<open>datetime\<close>, by the fields \<open>strftime("%Y-%m-%d")\<close> prints.\<close>

record datetime =
  year :: nat
  month :: nat
  day :: nat

text \<open>
  The reply of the chat-completion call: \<open>response.choices\<close>, each choice kept as its
  \<open>message.content\<close>, which is \<open>None\<close> when the model returned no text.
\<close>

record chat_completion =
  choices :: "pystr option list"

subsection \<open>What the run does not control\<close>

text \<open>
  Everything outside the program is a parameter of the run: the four endpoints of the
  document store (by URL, the last by request body), the completion call (by prompt),
  \<open>json.loads\<close>, the random generator's \<open>_randbelow\<close> and the clock. An endpoint and the
  completion call answer with a value or raise; \<open>json.loads\<close> raises \<open>JSONDecodeError\<close> on
  text that is not JSON and can raise other errors (\<open>RecursionError\<close> on deep nesting).
\<close>

record world =
  get_page :: "pystr \<Rightarrow> error + page response"
  get_children :: "pystr \<Rightarrow> error + block list response"
  get_database :: "pystr \<Rightarrow> error + database response"
  post_pages :: "payload \<Rightarrow> error + pystr response"
  chat_completions_create :: "pystr \<Rightarrow> error + chat_completion"
  json_loads :: "pystr \<Rightarrow> error + json"
  randbelow :: "nat \<Rightarrow> nat"
  datetime_now :: datetime

subsection \<open>Exceptions and the request log\<close>

text \<open>
  A step that can raise returns \<open>error + 'a\<close>; \<open>raise_bind\<close> runs the next step unless the
  first one raised. A step that talks to the document store also extends the log of the
  requests issued so far, and the log survives an exception: \<open>io_bind\<close> sequences such
  steps, \<open>io_lift\<close> embeds a step without requests, \<open>send\<close> issues one request.
\<close>

definition raise_bind :: "error + 'a \<Rightarrow> ('a \<Rightarrow> error + 'b) \<Rightarrow> error + 'b" where
  "raise_bind m f = (case m of Inl e \<Rightarrow> Inl e | Inr v \<Rightarrow> f v)"

type_synonym 'a io = "request list \<Rightarrow> (error + 'a) \<times> request list"

definition io_bind :: "'a io \<Rightarrow> ('a \<Rightarrow> 'b io) \<Rightarrow> 'b io" where
  "io_bind m f trace =
     (case m trace of (Inl e, trace') \<Rightarrow> (Inl e, trace') | (Inr v, trace') \<Rightarrow> f v trace')"

definition io_lift :: "error + 'a \<Rightarrow> 'a io" where
  "io_lift r trace = (r, trace)"

definition send :: "request \<Rightarrow> error + 'a \<Rightarrow> 'a io" where
  "send rq answer trace = (answer, trace @ [rq])"

text \<open>The number of record-creation requests in a log.\<close>

fun is_post :: "request \<Rightarrow> bool" where
  "is_post (POST url p) = True"
| "is_post (GET url) = False"

definition posts :: "request list \<Rightarrow> nat" where
  "posts trace = length (filter is_post trace)"

section \<open>Content Fetcher: \<open>read_goals_page\<close> and \<open>get_page_content\<close>\<close>

text \<open>
  The progress message of \<open>read_goals_page\<close> evaluates
  \<^verbatim>\<open>page_data.get('properties', {}).get('title', {}).get('title', [{}])[0].get('plain_text', 'No title')\<close>
  and \<open>get_database_properties\<close> the same on \<open>database.get('title', [{}])\<close>: indexing
  the title runs at 0 raises \<open>IndexError\<close> when the key is there with an empty list.
\<close>

definition printed_title :: "pystr list option \<Rightarrow> error + pystr" where
  "printed_title title =
     (case title of
        None \<Rightarrow> Inr (py ''No title'')
      | Some runs \<Rightarrow> raise_bind (getitem runs 0) (\<lambda>run. Inr run))"

definition read_goals_page :: "world \<Rightarrow> pystr \<Rightarrow> page io" where
  "read_goals_page w page_id =
     (let url = py ''https://api.notion.com/v1/pages/'' @ page_id in
      io_bind (send (GET url) (get_page w url)) (\<lambda>response.
      io_bind (io_lift (check_status (py ''Failed to read page'') response)) (\<lambda>_.
      io_bind (io_lift (response_json response)) (\<lambda>page_data.
      io_bind (io_lift (printed_title (page_title page_data))) (\<lambda>_.
      io_lift (Inr page_data))))))"

text \<open>
  One branch of the \<open>if\<close>/\<open>elif\<close> chain over the block type: the same four lines in each
  of the eight branches, with the branch's prefix.
  \<^verbatim>\<open>
  text_content = block[block_type]["rich_text"]
  if text_content:
      text = prefix + "".join([text["plain_text"] for text in text_content])
      content.append(text)
  \<close>
\<close>

definition append_text :: "pystr \<Rightarrow> block \<Rightarrow> pystr list \<Rightarrow> pystr list" where
  "append_text pre block content =
     (let text_content = rich_text block in
      if text_content \<noteq> [] then content @ [pre @ concat text_content] else content)"

fun content_loop :: "pystr list \<Rightarrow> block list \<Rightarrow> pystr list" where
  "content_loop content [] = content"
| "content_loop content (block # blocks) =
     (let block_type = (case block_type block of None \<Rightarrow> py ''unknown'' | Some t \<Rightarrow> t) in
      if block_type = py ''paragraph'' then
        content_loop (append_text [] block content) blocks
      else if block_type = py ''heading_1'' then
        content_loop (append_text (py ''# '') block content) blocks
      else if block_type = py ''heading_2'' then
        content_loop (append_text (py ''## '') block content) blocks
      else if block_type = py ''heading_3'' then
        content_loop (append_text (py ''### '') block content) blocks
      else if block_type = py ''bulleted_list_item'' then
        content_loop (append_text (py ''- '') block content) blocks
      else if block_type = py ''numbered_list_item'' then
        content_loop (append_text (py ''1. '') block content) blocks
      else if block_type = py ''to_do'' then
        content_loop (append_text [ballot_box, 32] block content) blocks
      else if block_type = py ''toggle'' then
        content_loop (append_text [down_triangle, 32] block content) blocks
      else content_loop content blocks)"

definition get_page_content :: "world \<Rightarrow> pystr \<Rightarrow> pystr io" where
  "get_page_content w page_id =
     io_bind (read_goals_page w page_id) (\<lambda>page_data.
     (let url = py ''https://api.notion.com/v1/blocks/'' @ page_id @ py ''/children'' in
      io_bind (send (GET url) (get_children w url)) (\<lambda>response.
      io_bind (io_lift (check_status (py ''Failed to get page blocks'') response)) (\<lambda>_.
      io_bind (io_lift (response_json response)) (\<lambda>blocks.
      io_lift (Inr (join (py ''\<newline>'') (content_loop [] blocks))))))))"




section \<open>Task Extractor: \<open>extract_individual_tasks\<close>\<close>

text \<open>
  \<^verbatim>\<open>lines = [line.strip() for line in goals_content.split('\n') if line.strip()]\<close>
\<close>

definition stripped_lines :: "pystr \<Rightarrow> pystr list" where
  "stripped_lines goals_content =
     [strip line. line \<leftarrow> split goals_content (py ''\<newline>''), strip line \<noteq> []]"

text \<open>The clean-up of one line: the \<open>if\<close>/\<open>elif\<close>/\<open>elif\<close> chain on the three markers.\<close>

definition clean_up :: "pystr \<Rightarrow> pystr" where
  "clean_up line =
     (let clean_line = strip line in
      if startswith clean_line (py ''- '') then drop 2 clean_line
      else if startswith clean_line (py ''1. '') then drop 3 clean_line
      else if startswith clean_line [ballot_box, 32] then drop 2 clean_line
      else clean_line)"

text \<open>The \<open>for\<close> loop over \<open>lines\<close>; \<open>tasks\<close> is the list being appended to.\<close>

fun tasks_loop :: "pystr list \<Rightarrow> pystr list \<Rightarrow> pystr list" where
  "tasks_loop tasks [] = tasks"
| "tasks_loop tasks (line # lines) =
     (if startswith line (py ''#'') \<or> startswith line (py ''##'') \<or>
         startswith line (py ''###'') \<or> length line < 5 \<or>
         line \<in> set [py '''', py '' '', py ''-'', py ''*'']
      then tasks_loop tasks lines
      else let clean_line = clean_up line in
        if clean_line \<noteq> [] \<and> length clean_line > 5
        then tasks_loop (tasks @ [clean_line]) lines
        else tasks_loop tasks lines)"

definition extract_individual_tasks :: "pystr \<Rightarrow> pystr list" where
  "extract_individual_tasks goals_content = tasks_loop [] (stripped_lines goals_content)"

text \<open>
  The contract of the Task Extractor as the specification words it, step by step, to be
  compared with the loop above.
\<close>

definition spec_lines :: "pystr \<Rightarrow> pystr list" where
  "spec_lines s = filter (\<lambda>l. l \<noteq> []) (map strip (split s (py ''\<newline>'')))"

definition spec_discarded :: "pystr \<Rightarrow> bool" where
  "spec_discarded l =
     (startswith l (py ''#'') \<or> length l < 5 \<or>
      l = py '''' \<or> l = py '' '' \<or> l = py ''-'' \<or> l = py ''*'')"

definition spec_strip_marker :: "pystr \<Rightarrow> pystr" where
  "spec_strip_marker l =
     (if startswith l (py ''- '') then drop 2 l
      else if startswith l (py ''1. '') then drop 3 l
      else if startswith l [ballot_box, 32] then drop 2 l
      else l)"

definition spec_extract :: "pystr \<Rightarrow> pystr list" where
  "spec_extract s =
     filter (\<lambda>l. \<not> length l \<le> 5)
       (map spec_strip_marker (filter (\<lambda>l. \<not> spec_discarded l) (spec_lines s)))"

section \<open>Selector: \<open>select_random_task\<close>\<close>

text \<open>
  \<open>random.choice(seq)\<close> is \<open>seq[self._randbelow(len(seq))]\<close>. The draw \<open>k\<close> stands for
  the value \<open>_randbelow\<close> returns, which the generator takes uniformly from
  \<open>0 .. len(seq) - 1\<close>; indexing out of range raises \<open>IndexError\<close>.
\<close>

definition random_choice :: "nat \<Rightarrow> 'a list \<Rightarrow> error + 'a" where
  "random_choice k seq = (if k < length seq then Inr (seq ! k) else Inl IndexError)"

definition select_random_task :: "nat \<Rightarrow> pystr list \<Rightarrow> error + pystr" where
  "select_random_task k tasks =
     (if tasks = [] then Inr (py ''Review and update your goals'')
      else random_choice k tasks)"


section \<open>Task Generator: \<open>generate_task_with_chatgpt\<close>\<close>

text \<open>The prompt: the f-string of the source around the selected goal.\<close>

definition prompt_head :: pystr where
  \<open>prompt_head =
      py ''\<newline>'' @
      py ''        Based on this specific goal, generate ONE small, actionable daily task that would help progress toward it.\<newline>'' @
      py ''        \<newline>'' @
      py ''        Selected Goal:\<newline>'' @
      py ''        ''\<close>

definition prompt_tail :: pystr where
  \<open>prompt_tail =
      py ''\<newline>'' @
      py ''        \<newline>'' @
      py ''        The task should be detailed and specific, and something that can be done within 15 minutes. The tone should be friendly and engaging.\<newline>'' @
      py ''        \<newline>'' @
      py ''        For example, if the goal is to "Learn to code", a task could be "Work on a leetcode challenge!"\<newline>'' @
      py ''        \<newline>'' @
      py ''        Please generate:\<newline>'' @
      py ''        1. A concise, actionable task title (max 6 words, avoid using "Today" or "Daily" or "For X minutes")\<newline>'' @
      py ''        2. A brief description explaining how to accomplish this task (max 2 sentences, do not use "Today" or "Daily" or "For X minutes")\<newline>'' @
      py ''        \<newline>'' @
      py ''        Format your response as JSON:\<newline>'' @
      py ''        {\<newline>'' @
      py ''            "title": "task title here",\<newline>'' @
      py ''            "description": "description here"\<newline>'' @
      py ''        }\<newline>'' @
      py ''        ''\<close>

definition prompt_text :: "pystr \<Rightarrow> pystr" where
  "prompt_text selected_task = prompt_head @ selected_task @ prompt_tail"

text \<open>The two defaults, and the dictionary the function returns.\<close>

definition default_title :: pystr where
  "default_title = py ''Daily Task''"

definition default_description :: pystr where
  "default_description = py ''Task related to your goals''"

definition task_dict :: "json \<Rightarrow> json \<Rightarrow> (pystr, json) dict" where
  "task_dict title description = [(py ''title'', title), (py ''description'', description)]"

text \<open>
  The removal of a Markdown fence, first branch for a reply that starts with the tagged
  fence, second for one that starts with a bare fence:
  \<^verbatim>\<open>response_text.split("```json")[1].split("```")[0].strip()\<close>
\<close>

definition strip_fences :: \<open>pystr \<Rightarrow> error + pystr\<close> where
  \<open>strip_fences response_text =
     (if startswith response_text (py ''```json'') then
        raise_bind (getitem (split response_text (py ''```json'')) 1) (\<lambda>inner.
        raise_bind (getitem (split inner (py ''```'')) 0) (\<lambda>inner.
        Inr (strip inner)))
      else if startswith response_text (py ''```'') then
        raise_bind (getitem (split response_text (py ''```'')) 1) (\<lambda>inner.
        raise_bind (getitem (split inner (py ''```'')) 0) (\<lambda>inner.
        Inr (strip inner)))
      else Inr response_text)\<close>

text \<open>
  The fallback of the \<open>except json.JSONDecodeError\<close> handler.
  \<^verbatim>\<open>line.split(":")[-1].strip().strip('"')\<close>: \<open>split\<close> never returns an empty list, so
  the index \<open>-1\<close> is its last piece.
\<close>

definition after_last_colon :: "pystr \<Rightarrow> pystr" where
  "after_last_colon line = strip_char 34 (strip (last (split line (py '':''))))"

fun scan_lines :: "pystr \<Rightarrow> pystr \<Rightarrow> pystr list \<Rightarrow> pystr \<times> pystr" where
  "scan_lines title description [] = (title, description)"
| "scan_lines title description (line # lines) =
     (if contains (lower line) (py ''title'') then
        scan_lines (after_last_colon line) description lines
      else if contains (lower line) (py ''description'') then
        scan_lines title (after_last_colon line) lines
      else scan_lines title description lines)"

definition fallback_scan :: "pystr \<Rightarrow> (pystr, json) dict" where
  "fallback_scan response_text =
     (let lines = split response_text (py ''\<newline>'');
          (title, description) = scan_lines default_title default_description lines
      in task_dict (JString title) (JString description))"

text \<open>
  The inner \<open>try\<close>: fence removal, \<open>json.loads\<close>, the two \<open>.get\<close> with their defaults;
  \<open>JSONDecodeError\<close> is handled by the fallback on the text as it is after the fence
  removal (\<open>response_text\<close> has been reassigned), any other exception leaves the block.
\<close>

definition parse_reply :: "world \<Rightarrow> pystr \<Rightarrow> error + (pystr, json) dict" where
  "parse_reply w response_text =
     raise_bind (strip_fences response_text) (\<lambda>response_text.
       case json_loads w response_text of
         Inr task_data \<Rightarrow>
           raise_bind (json_get task_data (py ''title'') (JString default_title)) (\<lambda>title.
           raise_bind (json_get task_data (py ''description'') (JString default_description))
             (\<lambda>description. Inr (task_dict title description)))
       | Inl JSONDecodeError \<Rightarrow> Inr (fallback_scan response_text)
       | Inl e \<Rightarrow> Inl e)"

text \<open>
  The outer \<open>try\<close>: the completion call, \<open>response.choices[0].message.content.strip()\<close>
  (\<open>IndexError\<close> without choices, \<open>AttributeError\<close> on a content of \<open>None\<close>) and the inner
  block. \<open>except Exception\<close> turns whatever was raised into the defaults; every exception
  of type \<open>error\<close> is a subclass of \<open>Exception\<close> (\<open>KeyboardInterrupt\<close> and \<open>SystemExit\<close>,
  which are not, are no outcome of a step here).
\<close>

definition attempt_generation :: "world \<Rightarrow> pystr \<Rightarrow> error + (pystr, json) dict" where
  "attempt_generation w selected_task =
     raise_bind (chat_completions_create w (prompt_text selected_task)) (\<lambda>response.
     raise_bind (getitem (choices response) 0) (\<lambda>content.
     raise_bind (case content of None \<Rightarrow> Inl AttributeError | Some c \<Rightarrow> Inr (strip c))
       (\<lambda>response_text. parse_reply w response_text)))"

definition generate_task_with_chatgpt :: "world \<Rightarrow> pystr \<Rightarrow> error + (pystr, json) dict" where
  "generate_task_with_chatgpt w selected_task =
     (case attempt_generation w selected_task of
        Inl e \<Rightarrow> Inr (task_dict (JString default_title) (JString default_description))
      | Inr result \<Rightarrow> Inr result)"

text \<open>
  The line scan as the specification words it: every line that contains \<open>title\<close>,
  whatever its case, sets the title, and every line that contains \<open>description\<close> sets
  the description, over the lines of the raw reply.
\<close>

fun spec_scan :: "pystr \<Rightarrow> pystr \<Rightarrow> pystr list \<Rightarrow> pystr \<times> pystr" where
  "spec_scan title description [] = (title, description)"
| "spec_scan title description (line # lines) =
     spec_scan
       (if contains (lower line) (py ''title'') then after_last_colon line else title)
       (if contains (lower line) (py ''description'') then after_last_colon line
        else description)
       lines"

definition spec_fallback :: "pystr \<Rightarrow> (pystr, json) dict" where
  "spec_fallback raw_reply =
     (let (title, description) =
            spec_scan default_title default_description (split raw_reply (py ''\<newline>''))
      in task_dict (JString title) (JString description))"

section \<open>Task Writer: \<open>get_database_properties\<close> and \<open>create_task_page\<close>\<close>

definition get_database_properties :: "world \<Rightarrow> pystr \<Rightarrow> (pystr, prop_details) dict io" where
  "get_database_properties w database_id =
     (let url = py ''https://api.notion.com/v1/databases/'' @ database_id in
      io_bind (send (GET url) (get_database w url)) (\<lambda>response.
      io_bind (io_lift (check_status (py ''Failed to get database'') response)) (\<lambda>_.
      io_bind (io_lift (response_json response)) (\<lambda>database.
      io_bind (io_lift (printed_title (database_title database))) (\<lambda>_.
      io_lift (Inr (database_properties database)))))))"

text \<open>
  The search for the title property: the first property of type \<open>title\<close>, by the loop
  with \<open>break\<close>; then \<open>if not title_property\<close>, true of \<open>None\<close> and of the empty string,
  falls back to \<open>list(properties.keys())[0]\<close>, which raises \<open>IndexError\<close> on an empty
  dictionary.
\<close>

fun find_title_property :: "(pystr, prop_details) dict \<Rightarrow> pystr option" where
  "find_title_property [] = None"
| "find_title_property ((prop_name, prop_details) # rest) =
     (if prop_type prop_details = py ''title'' then Some prop_name
      else find_title_property rest)"

definition title_property_of :: "(pystr, prop_details) dict \<Rightarrow> error + pystr" where
  "title_property_of properties =
     (case find_title_property properties of
        None \<Rightarrow> getitem (map fst properties) 0
      | Some title_property \<Rightarrow>
          if title_property = [] then getitem (map fst properties) 0
          else Inr title_property)"

text \<open>
  \<open>datetime.now().strftime("%Y-%m-%d")\<close>: year, month and day, zero-padded to four,
  two and two digits. (For a year below 1000 the padding of \<open>%Y\<close> depends on the
  platform's C library; a clock does not return such a year.)
\<close>

definition zero_pad :: "nat \<Rightarrow> pystr \<Rightarrow> pystr" where
  "zero_pad n s = replicate (n - length s) 48 @ s"

definition strftime_Ymd :: "datetime \<Rightarrow> pystr" where
  "strftime_Ymd d =
     zero_pad 4 (digits (year d)) @ py ''-'' @ zero_pad 2 (digits (month d)) @ py ''-'' @
     zero_pad 2 (digits (day d))"

text \<open>
  The loop that fills \<open>properties_payload\<close>: the title property is skipped, a \<open>select\<close>
  with options gets \<open>options[0]["name"]\<close>, a \<open>date\<close> gets today's date.
\<close>

fun payload_loop ::
  "pystr \<Rightarrow> pystr \<Rightarrow> (pystr, prop_value) dict \<Rightarrow> (pystr, prop_details) dict
     \<Rightarrow> (pystr, prop_value) dict" where
  "payload_loop title_property today properties_payload [] = properties_payload"
| "payload_loop title_property today properties_payload ((prop_name, prop_details) # rest) =
     (if prop_name = title_property then
        payload_loop title_property today properties_payload rest
      else if prop_type prop_details = py ''select'' then
        (let options = select_options prop_details in
         if options \<noteq> [] then
           payload_loop title_property today
             (dict_set properties_payload prop_name (Select (options ! 0))) rest
         else payload_loop title_property today properties_payload rest)
      else if prop_type prop_details = py ''date'' then
        payload_loop title_property today
          (dict_set properties_payload prop_name (Date today)) rest
      else payload_loop title_property today properties_payload rest)"

text \<open>
  The properties of the new record, from the schema, the draft and the clock; this is
  everything \<open>create_task_page\<close> computes between the schema request and the
  record-creation request.
\<close>

definition build_properties ::
  "datetime \<Rightarrow> (pystr, prop_details) dict \<Rightarrow> (pystr, json) dict
     \<Rightarrow> error + (pystr, prop_value) dict" where
  "build_properties now properties task_data =
     raise_bind (title_property_of properties) (\<lambda>title_property.
     (let today = strftime_Ymd now in
      raise_bind (dict_getitem task_data (py ''title'')) (\<lambda>title.
      Inr (payload_loop title_property today [(title_property, Title title)] properties))))"

definition create_task_page :: "world \<Rightarrow> pystr \<Rightarrow> (pystr, json) dict \<Rightarrow> pystr io" where
  "create_task_page w database_id task_data =
     io_bind (get_database_properties w database_id) (\<lambda>properties.
     io_bind (io_lift (build_properties (datetime_now w) properties task_data))
       (\<lambda>properties_payload.
     io_bind (io_lift (dict_getitem task_data (py ''description''))) (\<lambda>description.
     (let url = py ''https://api.notion.com/v1/pages'';
          payload = \<lparr>parent_database_id = database_id,
                     payload_properties = properties_payload,
                     children_content = description\<rparr> in
      io_bind (send (POST url payload) (post_pages w payload)) (\<lambda>response.
      io_bind (io_lift (check_status (py ''Failed to create task'') response)) (\<lambda>_.
      io_bind (io_lift (response_json response)) (\<lambda>task_id.
      io_lift (Inr task_id))))))))"

section \<open>The pipeline: \<open>generate_daily_task\<close>\<close>

text \<open>
  The five steps in order. The draw of \<open>random.choice\<close> is \<open>_randbelow\<close> of the number
  of candidates; the progress messages between steps 4 and 5 read
  \<open>task_data['title']\<close> and \<open>task_data['description']\<close>.
\<close>

definition generate_daily_task :: "world \<Rightarrow> pystr \<Rightarrow> pystr \<Rightarrow> pystr io" where
  "generate_daily_task w goals_page_id todo_database_id =
     io_bind (get_page_content w goals_page_id) (\<lambda>goals_content.
     (let individual_tasks = extract_individual_tasks goals_content in
      io_bind (io_lift (select_random_task (randbelow w (length individual_tasks))
                          individual_tasks)) (\<lambda>selected_task.
      io_bind (io_lift (generate_task_with_chatgpt w selected_task)) (\<lambda>task_data.
      io_bind (io_lift (dict_getitem task_data (py ''title''))) (\<lambda>_.
      io_bind (io_lift (dict_getitem task_data (py ''description''))) (\<lambda>_.
      create_task_page w todo_database_id task_data))))))"

text \<open>
  The same run cut in two at the record-creation request: every step before the final
  write, which ends with the request body, and the final write itself. That the two
  compose to \<open>generate_daily_task\<close> is proved below.
\<close>

definition steps_before_write :: "world \<Rightarrow> pystr \<Rightarrow> pystr \<Rightarrow> payload io" where
  "steps_before_write w goals_page_id todo_database_id =
     io_bind (get_page_content w goals_page_id) (\<lambda>goals_content.
     (let individual_tasks = extract_individual_tasks goals_content in
      io_bind (io_lift (select_random_task (randbelow w (length individual_tasks))
                          individual_tasks)) (\<lambda>selected_task.
      io_bind (io_lift (generate_task_with_chatgpt w selected_task)) (\<lambda>task_data.
      io_bind (io_lift (dict_getitem task_data (py ''title''))) (\<lambda>_.
      io_bind (io_lift (dict_getitem task_data (py ''description''))) (\<lambda>_.
      io_bind (get_database_properties w todo_database_id) (\<lambda>properties.
      io_bind (io_lift (build_properties (datetime_now w) properties task_data))
        (\<lambda>properties_payload.
      io_bind (io_lift (dict_getitem task_data (py ''description''))) (\<lambda>description.
      io_lift (Inr \<lparr>parent_database_id = todo_database_id,
                     payload_properties = properties_payload,
                     children_content = description\<rparr>))))))))))"

definition final_write :: "world \<Rightarrow> payload \<Rightarrow> pystr io" where
  "final_write w payload =
     io_bind (send (POST (py ''https://api.notion.com/v1/pages'') payload)
                (post_pages w payload)) (\<lambda>response.
     io_bind (io_lift (check_status (py ''Failed to create task'') response)) (\<lambda>_.
     io_bind (io_lift (response_json response)) (\<lambda>task_id.
     io_lift (Inr task_id))))"

section \<open>A sample run\<close>

text \<open>
  The examples of the specification, as concrete values: a goals page with a heading,
  two bullets, a divider and an empty paragraph; a tracking list with a title, a
  select, a date and a text field; a completion reply; and \<open>json.loads\<close> on the
  three documents the examples decode (the other sample texts are not JSON).
\<close>

definition sample_blocks :: "block list" where
  "sample_blocks =
     [\<lparr>block_type = Some (py ''heading_1''), rich_text = [py ''Goals'']\<rparr>,
      \<lparr>block_type = Some (py ''bulleted_list_item''), rich_text = [py ''Learn '', py ''Spanish'']\<rparr>,
      \<lparr>block_type = Some (py ''divider''), rich_text = []\<rparr>,
      \<lparr>block_type = Some (py ''paragraph''), rich_text = []\<rparr>,
      \<lparr>block_type = Some (py ''bulleted_list_item''), rich_text = [py ''Run a marathon'']\<rparr>]"

definition sample_schema :: "(pystr, prop_details) dict" where
  "sample_schema =
     [(py ''Status'', \<lparr>prop_type = py ''select'', select_options = [py ''To Do'', py ''Done'']\<rparr>),
      (py ''Name'', \<lparr>prop_type = py ''title'', select_options = []\<rparr>),
      (py ''Due'', \<lparr>prop_type = py ''date'', select_options = []\<rparr>),
      (py ''Notes'', \<lparr>prop_type = py ''rich_text'', select_options = []\<rparr>)]"

definition sample_reply :: pystr where
  \<open>sample_reply =
     py ''{"title":"Pack a gym bag","description":"Lay out clothes and shoes tonight."}''\<close>

definition sample_task :: "(pystr, json) dict" where
  "sample_task =
     task_dict (JString (py ''Pack a gym bag''))
       (JString (py ''Lay out clothes and shoes tonight.''))"

definition title_only_reply :: pystr where
  \<open>title_only_reply = py ''{"title":"Pack a gym bag"}''\<close>

definition garbage_reply :: pystr where
  "garbage_reply = py ''I cannot help with that.''"

definition mixed_reply :: pystr where
  "mixed_reply = py ''Description: Pick a title for the essay''"

definition fenced_lines_reply :: pystr where
  "fenced_lines_reply = py ''```\<newline>Title: Walk\<newline>```\<newline>Title: Run''"

definition string_reply :: pystr where
  \<open>string_reply = py ''"Pack a gym bag"''\<close>

definition sample_loads :: "pystr \<Rightarrow> error + json" where
  "sample_loads s =
     (if s = sample_reply then Inr (JObject sample_task)
      else if s = title_only_reply
        then Inr (JObject [(py ''title'', JString (py ''Pack a gym bag''))])
      else if s = string_reply then Inr (JString (py ''Pack a gym bag''))
      else Inl JSONDecodeError)"

definition ok :: "'a \<Rightarrow> error + 'a response" where
  "ok v = Inr \<lparr>status_code = 200, raw_text = py ''{}'', body = Some v\<rparr>"

definition sample_world :: world where
  "sample_world =
     \<lparr>get_page = (\<lambda>url. ok \<lparr>page_title = Some [py ''Goals'']\<rparr>),
      get_children = (\<lambda>url. ok sample_blocks),
      get_database = (\<lambda>url. ok \<lparr>database_title = Some [py ''Tasks''],
                                   database_properties = sample_schema\<rparr>),
      post_pages = (\<lambda>payload. ok (py ''page-1'')),
      chat_completions_create = (\<lambda>prompt. Inr \<lparr>choices = [Some sample_reply]\<rparr>),
      json_loads = sample_loads,
      randbelow = (\<lambda>n. n - 1),
      datetime_now = \<lparr>year = 2026, month = 11, day = 3\<rparr>\<rparr>"

text \<open>The sample world with another completion reply.\<close>

definition replying :: "pystr \<Rightarrow> world" where
  "replying reply =
     sample_world\<lparr>chat_completions_create := (\<lambda>prompt. Inr \<lparr>choices = [Some reply]\<rparr>)\<rparr>"

text \<open>The sample world with another answer to the schema request.\<close>

definition with_database :: "error + database response \<Rightarrow> world" where
  "with_database answer = sample_world\<lparr>get_database := (\<lambda>url. answer)\<rparr>"

definition empty_database :: database where
  "empty_database = \<lparr>database_title = Some [py ''Tasks''], database_properties = []\<rparr>"

text \<open>The sample world with another answer to the document request.\<close>

definition with_page :: "error + page response \<Rightarrow> world" where
  "with_page answer = sample_world\<lparr>get_page := (\<lambda>url. answer)\<rparr>"

text \<open>The sample world with a completion call that raises.\<close>

definition failing_completion :: "error \<Rightarrow> world" where
  "failing_completion e = sample_world\<lparr>chat_completions_create := (\<lambda>prompt. Inl e)\<rparr>"

text \<open>The sample reply inside a tagged Markdown fence.\<close>

definition fenced_reply :: pystr where
  \<open>fenced_reply = py ''```json\<newline>'' @ sample_reply @ py ''\<newline>```''\<close>

text \<open>The sample world with another answer to the other two requests.\<close>

definition with_children :: "error + block list response \<Rightarrow> world" where
  "with_children answer = sample_world\<lparr>get_children := (\<lambda>url. answer)\<rparr>"

definition with_post :: "error + pystr response \<Rightarrow> world" where
  "with_post answer = sample_world\<lparr>post_pages := (\<lambda>payload. answer)\<rparr>"

text \<open>The properties and the request body the sample run builds.\<close>

definition sample_properties :: "(pystr, prop_value) dict" where
  "sample_properties =
     [(py ''Name'', Title (JString (py ''Pack a gym bag''))),
      (py ''Status'', Select (py ''To Do'')),
      (py ''Due'', Date (py ''2026-11-03''))]"

definition sample_payload :: payload where
  "sample_payload =
     \<lparr>parent_database_id = py ''todo'',
      payload_properties = sample_properties,
      children_content = JString (py ''Lay out clothes and shoes tonight.'')\<rparr>"

section \<open>Properties\<close>

subsection \<open>Strings\<close>

lemma dropWhile_rev_fix:
  assumes "t = [] \<or> \<not> P (hd t)"
  shows "dropWhile P (rev (dropWhile P (rev t))) = rev (dropWhile P (rev t))"
proof (cases "dropWhile P (rev t)" rule: rev_cases)
  case Nil
  then show ?thesis by (simp del: dropWhile_eq_Nil_conv)
next
  case (snoc ys y)
  then have ne: "t \<noteq> []" by auto
  have L: "dropWhile P us \<noteq> [] \<Longrightarrow> last (dropWhile P us) = last us" for us
    by (induction us) (auto split: if_splits)
  have "dropWhile P (rev t) \<noteq> []"
    unfolding snoc by simp
  from L [OF this] have "last (dropWhile P (rev t)) = last (rev t)" .
  with snoc have "y = hd t" using ne by (simp add: last_rev)
  with assms ne have "\<not> P y" by simp
  with snoc show ?thesis by (simp del: dropWhile_eq_Nil_conv)
qed

lemma strip_idem: "strip (strip s) = strip s"
proof -
  have b: "dropWhile isspace s = [] \<or> \<not> isspace (hd (dropWhile isspace s))"
    by (metis hd_dropWhile)
  show ?thesis
    unfolding strip_def
    using dropWhile_rev_fix [of "dropWhile isspace s" isspace, OF b]
    by (simp add: dropWhile_idem)
qed

lemma strip_keeps_head:
  assumes "startswith l [c]" and "\<not> isspace c"
  shows "startswith (strip l) [c]"
proof -
  from assms(1) obtain l' where l: "l = c # l'"
    by (cases l) (auto simp: startswith_def)
  have "\<exists>ys. dropWhile isspace (rev l' @ [c]) = ys @ [c]"
  proof (cases "\<forall>x\<in>set (rev l'). isspace x")
    case True
    have "dropWhile isspace (rev l' @ [c]) = dropWhile isspace [c]"
      by (rule dropWhile_append2) (use True in blast)
    with assms(2) show ?thesis by simp
  next
    case False
    then obtain x where "x \<in> set (rev l')" "\<not> isspace x" by blast
    then have "dropWhile isspace (rev l' @ [c]) = dropWhile isspace (rev l') @ [c]"
      by (rule dropWhile_append1)
    then show ?thesis by blast
  qed
  then obtain ys where "dropWhile isspace (rev l' @ [c]) = ys @ [c]" ..
  with assms(2) l show ?thesis
    by (simp add: strip_def startswith_def)
qed

lemma startswith_longer: "startswith l (p @ q) \<Longrightarrow> startswith l p"
proof -
  assume "startswith l (p @ q)"
  then have "take (length p + length q) l = p @ q"
    by (simp add: startswith_def)
  then have "take (length p) (take (length p + length q) l) = p"
    by simp
  then show ?thesis
    by (simp add: startswith_def min_def)
qed

lemma startswith_prefix: "startswith s p = prefix p s"
proof
  assume "startswith s p"
  then have "s = p @ drop (length p) s"
    unfolding startswith_def by (metis append_take_drop_id)
  then show "prefix p s" by (rule prefixI)
next
  assume "prefix p s"
  then show "startswith s p"
    by (auto simp: startswith_def prefix_def)
qed

lemma contains_sublist: "contains s needle = sublist needle s"
  by (induction s) (auto simp: sublist_Cons_right startswith_prefix)

lemma lower_append: "lower (a @ b) = lower a @ lower b"
  by (simp add: lower_def)

lemma lower_sublist: "sublist a b \<Longrightarrow> sublist (lower a) (lower b)"
proof -
  assume "sublist a b"
  then obtain ps ss where "b = ps @ a @ ss" by (auto simp: sublist_def)
  then have "lower b = lower ps @ lower a @ lower ss" by (simp add: lower_append)
  then show ?thesis unfolding sublist_def by blast
qed

lemma contains_lower_mono:
  "sublist a b \<Longrightarrow> contains (lower a) needle \<Longrightarrow> contains (lower b) needle"
  unfolding contains_sublist
  using lower_sublist sublist_order.order_trans by blast

lemma strip_sublist: "sublist (strip s) s"
proof -
  have "suffix (dropWhile isspace (rev (dropWhile isspace s))) (rev (dropWhile isspace s))"
    by (rule suffix_dropWhile)
  then have "prefix (strip s) (dropWhile isspace s)"
    unfolding strip_def by (simp add: suffix_to_prefix)
  then have "sublist (strip s) (dropWhile isspace s)"
    by (rule prefix_imp_sublist)
  moreover have "sublist (dropWhile isspace s) s"
    by (rule suffix_imp_sublist) (rule suffix_dropWhile)
  ultimately show ?thesis
    using sublist_order.order_trans by blast
qed

lemma split_from_sublist:
  "p \<in> set (split_from sep cur s) \<Longrightarrow> sublist p (cur @ s)"
proof (induction sep cur s rule: split_from.induct)
  case (1 sep cur)
  then show ?case by simp
next
  case (2 sep cur c cs)
  show ?case
  proof (cases "sep \<noteq> [] \<and> startswith (c # cs) sep")
    case True
    with "2.prems" have "p = cur \<or> p \<in> set (split_from sep [] (drop (length sep) (c # cs)))"
      by auto
    then show ?thesis
    proof
      assume "p = cur"
      then show ?thesis by (simp add: sublist_append_rightI)
    next
      assume "p \<in> set (split_from sep [] (drop (length sep) (c # cs)))"
      with "2.IH"(1) True have "sublist p (drop (length sep) (c # cs))" by simp
      moreover have "sublist (drop (length sep) (c # cs)) (cur @ c # cs)"
        by (metis suffix_drop suffix_imp_sublist sublist_append_leftI
            sublist_order.order_trans)
      ultimately show ?thesis
        using sublist_order.order_trans by blast
    qed
  next
    case False
    with "2.prems" have "p \<in> set (split_from sep (cur @ [c]) cs)" by auto
    with "2.IH"(2) False have "sublist p ((cur @ [c]) @ cs)" by blast
    then show ?thesis by simp
  qed
qed

lemma split_sublist: "p \<in> set (split s sep) \<Longrightarrow> sublist p s"
  using split_from_sublist [of p sep "[]" s] by (simp add: split_def)

lemma split_from_nonempty: "split_from sep cur s \<noteq> []"
  by (induction sep cur s rule: split_from.induct) auto

lemma getitem_member: "getitem xs i = Inr x \<Longrightarrow> x \<in> set xs"
  by (auto simp: getitem_def split: if_splits)

lemma strip_fences_sublist:
  assumes "strip_fences t = Inr u"
  shows "sublist u t"
proof -
  have step: "sublist u t"
    if a: "getitem (split t sep) 1 = Inr inner"
      and b: "getitem (split inner (py ''```'')) 0 = Inr inner'"
      and u: "u = strip inner'" for sep inner inner'
  proof -
    from a have "sublist inner t" by (blast dest: getitem_member split_sublist)
    moreover from b have "sublist inner' inner" by (blast dest: getitem_member split_sublist)
    moreover have "sublist u inner'" unfolding u by (rule strip_sublist)
    ultimately show ?thesis
      using sublist_order.order_trans by blast
  qed
  show ?thesis
  proof (cases "startswith t (py ''```json'')")
    case True
    with assms obtain inner inner' where
      "getitem (split t (py ''```json'')) 1 = Inr inner"
      "getitem (split inner (py ''```'')) 0 = Inr inner'" "u = strip inner'"
      by (auto simp: strip_fences_def raise_bind_def split: sum.splits)
    then show ?thesis by (rule step)
  next
    case False
    show ?thesis
    proof (cases "startswith t (py ''```'')")
      case True
      with assms False obtain inner inner' where
        "getitem (split t (py ''```'')) 1 = Inr inner"
        "getitem (split inner (py ''```'')) 0 = Inr inner'" "u = strip inner'"
        by (auto simp: strip_fences_def raise_bind_def split: sum.splits)
      then show ?thesis by (rule step)
    next
      case no: False
      with assms False have "u = t" by (simp add: strip_fences_def)
      then show ?thesis by simp
    qed
  qed
qed

lemma split_after_prefix:
  assumes "sep \<noteq> []" and "startswith t sep"
  shows "2 \<le> length (split t sep)"
proof (cases t)
  case Nil
  with assms show ?thesis by (simp add: startswith_def)
next
  case (Cons c cs)
  with assms have "split t sep = [] # split_from sep [] (drop (length sep) (c # cs))"
    by (simp add: split_def)
  moreover have "split_from sep [] (drop (length sep) (c # cs)) \<noteq> []"
    by (rule split_from_nonempty)
  ultimately show ?thesis
    by (cases "split_from sep [] (drop (length sep) (c # cs))") simp_all
qed

lemma strip_fences_total: "\<exists>u. strip_fences t = Inr u"
proof -
  have first: "\<exists>x. getitem (split s sep) 0 = Inr x" for s sep
    using split_from_nonempty [of sep "[]" s] by (simp add: getitem_def split_def)
  have second: "\<exists>x. getitem (split t sep) 1 = Inr x" if "sep \<noteq> []" "startswith t sep" for sep
    using split_after_prefix [OF that] by (simp add: getitem_def)
  have j: "py ''```json'' \<noteq> []" and b: "py ''```'' \<noteq> []"
    by (simp_all add: py_def)
  show ?thesis
  proof (cases "startswith t (py ''```json'')")
    case True
    from second [OF j True] obtain inner where
      i: "getitem (split t (py ''```json'')) 1 = Inr inner" ..
    from first [of inner "py ''```''"] obtain inner' where
      "getitem (split inner (py ''```'')) 0 = Inr inner'" ..
    with i True show ?thesis by (simp add: strip_fences_def raise_bind_def)
  next
    case False
    show ?thesis
    proof (cases "startswith t (py ''```'')")
      case True
      from second [OF b True] obtain inner where
        i: "getitem (split t (py ''```'')) 1 = Inr inner" ..
      from first [of inner "py ''```''"] obtain inner' where
        "getitem (split inner (py ''```'')) 0 = Inr inner'" ..
      with i True False show ?thesis by (simp add: strip_fences_def raise_bind_def)
    next
      case no: False
      with False show ?thesis by (simp add: strip_fences_def)
    qed
  qed
qed

subsection \<open>Task Extractor\<close>

lemma comprehension_filter_map:
  "[f x. x \<leftarrow> xs, f x \<noteq> []] = filter (\<lambda>l. l \<noteq> []) (map f xs)"
  by (induction xs) auto

lemma stripped_lines_spec: "stripped_lines s = spec_lines s"
  unfolding stripped_lines_def spec_lines_def
  by (rule comprehension_filter_map)

lemma spec_lines_stripped: "l \<in> set (spec_lines s) \<Longrightarrow> strip l = l"
  by (auto simp: spec_lines_def strip_idem)

lemma header_tests:
  "(startswith line (py ''#'') \<or> startswith line (py ''##'') \<or> startswith line (py ''###''))
     = startswith line (py ''#'')"
proof -
  have "startswith line (py ''##'') \<Longrightarrow> startswith line (py ''#'')"
    using startswith_longer [of line "py ''#''" "py ''#''"] by (simp add: py_def)
  moreover have "startswith line (py ''###'') \<Longrightarrow> startswith line (py ''#'')"
    using startswith_longer [of line "py ''#''" "py ''##''"] by (simp add: py_def)
  ultimately show ?thesis by blast
qed

lemma tasks_loop_spec:
  assumes "\<forall>l\<in>set lines. strip l = l"
  shows "tasks_loop tasks lines =
           tasks @ filter (\<lambda>l. \<not> length l \<le> 5)
             (map spec_strip_marker (filter (\<lambda>l. \<not> spec_discarded l) lines))"
  using assms
proof (induction lines arbitrary: tasks)
  case Nil
  show ?case by simp
next
  case (Cons line lines)
  have s: "strip line = line" using Cons.prems by simp
  have c: "clean_up line = spec_strip_marker line"
    by (simp add: clean_up_def spec_strip_marker_def s)
  have d: "(startswith line (py ''#'') \<or> startswith line (py ''##'') \<or>
            startswith line (py ''###'') \<or> length line < 5 \<or>
            line \<in> set [py '''', py '' '', py ''-'', py ''*'']) = spec_discarded line"
    using header_tests [of line] unfolding spec_discarded_def by auto
  have ih: "\<And>ts. tasks_loop ts lines =
              ts @ filter (\<lambda>l. \<not> length l \<le> 5)
                (map spec_strip_marker (filter (\<lambda>l. \<not> spec_discarded l) lines))"
    using Cons.IH Cons.prems by simp
  show ?case
    unfolding tasks_loop.simps d c Let_def
    by (auto simp: ih)
qed

lemma extract_spec: "extract_individual_tasks s = spec_extract s"
  unfolding extract_individual_tasks_def spec_extract_def stripped_lines_spec
  using tasks_loop_spec [of "spec_lines s" "[]"] spec_lines_stripped [of _ s]
  by simp

text \<open>
  C4. For every input string the Task Extractor returns exactly the list the contract
  describes: the lines split on newline, stripped, without the empty ones; without those
  that start with \<open>#\<close>, are shorter than 5 characters or are one of the four listed
  strings; with at most one leading marker removed (bullet, then number, then checkbox);
  without those whose remaining length is at most 5; in input order, duplicates kept.
  So every emitted line has at least 6 characters and comes from an input line that did
  not start with \<open>#\<close>, before or after stripping.
\<close>

theorem extract_individual_tasks_contract:
  "extract_individual_tasks s = spec_extract s \<and>
   (\<forall>t\<in>set (extract_individual_tasks s). 6 \<le> length t) \<and>
   (\<forall>t\<in>set (extract_individual_tasks s).
      \<exists>l\<in>set (split s (py ''\<newline>'')).
        \<not> startswith l (py ''#'') \<and> \<not> startswith (strip l) (py ''#'') \<and>
        t = spec_strip_marker (strip l))"
proof (intro conjI ballI)
  show "extract_individual_tasks s = spec_extract s" by (rule extract_spec)
next
  fix t assume "t \<in> set (extract_individual_tasks s)"
  then show "6 \<le> length t" by (auto simp: extract_spec spec_extract_def)
next
  fix t assume "t \<in> set (extract_individual_tasks s)"
  then obtain l where l: "l \<in> set (split s (py ''\<newline>''))"
      and nd: "\<not> spec_discarded (strip l)" and t: "t = spec_strip_marker (strip l)"
    by (auto simp: extract_spec spec_extract_def spec_lines_def)
  from nd have h: "\<not> startswith (strip l) (py ''#'')" by (simp add: spec_discarded_def)
  have "\<not> startswith l (py ''#'')"
  proof
    assume "startswith l (py ''#'')"
    then have "startswith (strip l) [35]"
      using strip_keeps_head [of l 35] by (simp add: py_def isspace_def)
    with h show False by (simp add: py_def)
  qed
  with l h t show "\<exists>l\<in>set (split s (py ''\<newline>'')).
        \<not> startswith l (py ''#'') \<and> \<not> startswith (strip l) (py ''#'') \<and>
        t = spec_strip_marker (strip l)" by blast
qed

theorem extract_individual_tasks_contract_witness:
  "spec_extract (py ''# Goals\<newline>- Learn Spanish\<newline>- Run a marathon\<newline>'')
     = [py ''Learn Spanish'', py ''Run a marathon''] \<and>
   6 \<le> length (hd (extract_individual_tasks
       (py ''# Goals\<newline>- Learn Spanish\<newline>- Run a marathon\<newline>''))) \<and>
   (\<exists>l\<in>set (split (py ''# Goals\<newline>- Learn Spanish\<newline>- Run a marathon\<newline>'')
        (py ''\<newline>'')).
      \<not> startswith l (py ''#'') \<and> py ''Run a marathon'' = spec_strip_marker (strip l))"
proof -
  have e: "extract_individual_tasks (py ''# Goals\<newline>- Learn Spanish\<newline>- Run a marathon\<newline>'')
     = [py ''Learn Spanish'', py ''Run a marathon'']"
    by code_simp
  note c = extract_individual_tasks_contract
      [of "py ''# Goals\<newline>- Learn Spanish\<newline>- Run a marathon\<newline>''", unfolded e]
  from c [THEN conjunct1]
  have "spec_extract (py ''# Goals\<newline>- Learn Spanish\<newline>- Run a marathon\<newline>'')
     = [py ''Learn Spanish'', py ''Run a marathon'']"
    by (rule sym)
  moreover from c [THEN conjunct2, THEN conjunct1]
  have "6 \<le> length (hd [py ''Learn Spanish'', py ''Run a marathon''])"
    by simp
  moreover from c [THEN conjunct2, THEN conjunct2]
  have "\<exists>l\<in>set (split (py ''# Goals\<newline>- Learn Spanish\<newline>- Run a marathon\<newline>'')
        (py ''\<newline>'')).
      \<not> startswith l (py ''#'') \<and> py ''Run a marathon'' = spec_strip_marker (strip l)"
    by auto
  ultimately show ?thesis unfolding e by blast
qed

subsection \<open>Selector\<close>

lemma positions_count: "card {k. k < length xs \<and> xs ! k = v} = count_list xs v"
proof -
  have "count_list xs v = length (filter ((=) v) xs)"
    by (rule count_list_eq_length_filter)
  also have "\<dots> = card {k. k < length xs \<and> v = xs ! k}"
    by (rule length_filter_conv_card)
  also have "{k. k < length xs \<and> v = xs ! k} = {k. k < length xs \<and> xs ! k = v}"
    by auto
  finally show ?thesis by simp
qed

text \<open>
  C8. For the empty candidate list the Selector returns the literal fallback string,
  whatever the draw. For a non-empty list and a draw \<open>k\<close> below its length it returns the
  element at position \<open>k\<close>, an element of the list; so each position is hit by exactly one
  of the equally likely draws, and the number of draws that return a value \<open>v\<close> is the
  number of times \<open>v\<close> occurs in the list (a value appearing twice has double weight).
\<close>

theorem select_random_task_uniform:
  "select_random_task k [] = Inr (py ''Review and update your goals'') \<and>
   (tasks \<noteq> [] \<longrightarrow> k < length tasks \<longrightarrow>
      select_random_task k tasks = Inr (tasks ! k) \<and> tasks ! k \<in> set tasks) \<and>
   (tasks \<noteq> [] \<longrightarrow>
      card {j. j < length tasks \<and> select_random_task j tasks = Inr v} = count_list tasks v)"
proof (intro conjI impI)
  show "select_random_task k [] = Inr (py ''Review and update your goals'')"
    by (simp add: select_random_task_def)
next
  assume "tasks \<noteq> []" "k < length tasks"
  then show "select_random_task k tasks = Inr (tasks ! k)"
    by (simp add: select_random_task_def random_choice_def)
next
  assume "k < length tasks"
  then show "tasks ! k \<in> set tasks" by simp
next
  assume ne: "tasks \<noteq> []"
  have "{j. j < length tasks \<and> select_random_task j tasks = Inr v}
          = {j. j < length tasks \<and> tasks ! j = v}"
    using ne by (auto simp: select_random_task_def random_choice_def)
  then show "card {j. j < length tasks \<and> select_random_task j tasks = Inr v}
               = count_list tasks v"
    by (simp add: positions_count)
qed

theorem select_random_task_uniform_witness:
  "[py ''Learn Spanish'', py ''Run a marathon'', py ''Learn Spanish''] \<noteq> [] \<and>
   (2::nat) < length [py ''Learn Spanish'', py ''Run a marathon'', py ''Learn Spanish''] \<and>
   select_random_task 2 [py ''Learn Spanish'', py ''Run a marathon'', py ''Learn Spanish'']
     = Inr (py ''Learn Spanish'') \<and>
   card {j. j < length [py ''Learn Spanish'', py ''Run a marathon'', py ''Learn Spanish''] \<and>
            select_random_task j [py ''Learn Spanish'', py ''Run a marathon'', py ''Learn Spanish'']
              = Inr (py ''Learn Spanish'')} = 2"
  using select_random_task_uniform
    [of 2 "[py ''Learn Spanish'', py ''Run a marathon'', py ''Learn Spanish'']" "py ''Learn Spanish''"]
  by (simp add: py_def)

subsection \<open>Content Fetcher\<close>






subsection \<open>Task Writer\<close>

lemma map_of_dict_set: "map_of (dict_set d k v) = (map_of d)(k \<mapsto> v)"
  by (induction d) auto

lemma find_title_property_find:
  "find_title_property schema =
     map_option fst (find (\<lambda>(name, field). prop_type field = py ''title'') schema)"
  by (induction schema) auto

lemma title_property_of_carrier:
  assumes "schema \<noteq> []"
  shows "title_property_of schema =
           Inr (case find_title_property schema of
                  None \<Rightarrow> fst (hd schema)
                | Some n \<Rightarrow> if n = [] then fst (hd schema) else n)"
  using assms
  by (cases schema) (auto simp: title_property_of_def getitem_def split: option.splits)

lemma find_title_property_member:
  "find_title_property schema = Some n \<Longrightarrow> n \<in> fst ` set schema"
  by (induction schema) (auto split: if_splits)

lemma title_property_of_member:
  "title_property_of schema = Inr carrier \<Longrightarrow> carrier \<in> fst ` set schema"
  using find_title_property_member [of schema]
  by (cases schema)
    (auto simp: title_property_of_def getitem_def split: option.splits if_splits)

lemma payload_loop_lookup:
  assumes "distinct (map fst rest)"
  shows "map_of (payload_loop c today p rest) name =
           (case map_of rest name of
              None \<Rightarrow> map_of p name
            | Some field \<Rightarrow>
                if name = c then map_of p name
                else if prop_type field = py ''select'' then
                  (if select_options field \<noteq> [] then Some (Select (select_options field ! 0))
                   else map_of p name)
                else if prop_type field = py ''date'' then Some (Date today)
                else map_of p name)"
  using assms
proof (induction rest arbitrary: p name)
  case Nil
  show ?case by simp
next
  case (Cons a rest)
  obtain prop_name prop_details where a: "a = (prop_name, prop_details)" by (cases a)
  from Cons.prems a have d: "distinct (map fst rest)" and n: "prop_name \<notin> fst ` set rest"
    by auto
  from n have none: "map_of rest prop_name = None"
    by (simp add: map_of_eq_None_iff)
  show ?case
  proof (cases "name = prop_name")
    case True
    have "map_of rest name = None" using none True by simp
    then show ?thesis
      unfolding a using True
      by (auto simp: Cons.IH [OF d] map_of_dict_set Let_def)
  next
    case False
    then show ?thesis
      unfolding a by (auto simp: Cons.IH [OF d] map_of_dict_set Let_def split: option.splits)
  qed
qed

lemma length_digits:
  "0 < k \<Longrightarrow> n < 10 ^ k \<Longrightarrow> 0 < length (digits n) \<and> length (digits n) \<le> k"
proof (induction k arbitrary: n)
  case 0
  then show ?case by simp
next
  case (Suc k)
  show ?case
  proof (cases "n < 10")
    case True
    then show ?thesis by (simp add: digits.simps)
  next
    case False
    with Suc.prems have k: "0 < k" by (cases k) auto
    from Suc.prems have "n div 10 < 10 ^ k" by (simp add: less_mult_imp_div_less mult.commute)
    from Suc.IH [OF k this] False show ?thesis
      by (subst (1 2) digits.simps) simp
  qed
qed

lemma strftime_shape:
  assumes "1000 \<le> year now \<and> year now < 10000" and "month now < 100" and "day now < 100"
  shows "length (strftime_Ymd now) = 10 \<and> strftime_Ymd now ! 4 = 45 \<and>
         strftime_Ymd now ! 7 = 45"
proof -
  have y: "length (zero_pad 4 (digits (year now))) = 4"
    using length_digits [of 4 "year now"] assms(1) by (simp add: zero_pad_def)
  have m: "length (zero_pad 2 (digits (month now))) = 2"
    using length_digits [of 2 "month now"] assms(2) by (simp add: zero_pad_def)
  have d: "length (zero_pad 2 (digits (day now))) = 2"
    using length_digits [of 2 "day now"] assms(3) by (simp add: zero_pad_def)
  show ?thesis
    unfolding strftime_Ymd_def using y m d by (simp add: nth_append py_def)
qed

text \<open>
  C2, as amended. For every non-empty schema (a dictionary, so its field names are
  distinct) and every draft with a title, the Task Writer builds the properties without
  raising. The title carrier is the first title-typed field of the schema, or the
  schema's first field when there is none (or when that field's name is empty), and it
  is set to the draft's title. Every field other than the carrier is set to its first
  declared option when it is a select with at least one option, to the current date
  when it is a date, and is left unset otherwise; nothing outside the schema is set.
  The date of a year of four digits is printed as ten characters with a dash after the
  year and after the month.
\<close>

theorem build_properties_payload:
  assumes "distinct (map fst schema)" and "schema \<noteq> []"
    and "map_of task_data (py ''title'') = Some title"
  shows "\<exists>carrier p.
     build_properties now schema task_data = Inr p \<and>
     carrier = (case find (\<lambda>(name, field). prop_type field = py ''title'') schema of
                  None \<Rightarrow> fst (hd schema)
                | Some (name, field) \<Rightarrow> if name = [] then fst (hd schema) else name) \<and>
     map_of p carrier = Some (Title title) \<and>
     (\<forall>(name, field)\<in>set schema. name \<noteq> carrier \<longrightarrow>
        map_of p name =
          (if prop_type field = py ''select'' \<and> select_options field \<noteq> []
             then Some (Select (hd (select_options field)))
           else if prop_type field = py ''date'' then Some (Date (strftime_Ymd now))
           else None)) \<and>
     (\<forall>name. name \<notin> fst ` set schema \<longrightarrow> map_of p name = None) \<and>
     (1000 \<le> year now \<and> year now < 10000 \<and> month now < 100 \<and> day now < 100 \<longrightarrow>
        length (strftime_Ymd now) = 10 \<and> strftime_Ymd now ! 4 = 45 \<and>
        strftime_Ymd now ! 7 = 45)"
proof -
  define carrier where "carrier =
    (case find_title_property schema of
       None \<Rightarrow> fst (hd schema) | Some n \<Rightarrow> if n = [] then fst (hd schema) else n)"
  define p where
    "p = payload_loop carrier (strftime_Ymd now) [(carrier, Title title)] schema"
  have c: "title_property_of schema = Inr carrier"
    unfolding carrier_def by (rule title_property_of_carrier [OF assms(2)])
  have b: "build_properties now schema task_data = Inr p"
    by (simp add: build_properties_def c raise_bind_def dict_getitem_def assms(3) p_def)
  have look: "map_of p name =
      (case map_of schema name of
         None \<Rightarrow> if name = carrier then Some (Title title) else None
       | Some field \<Rightarrow>
           if name = carrier then Some (Title title)
           else if prop_type field = py ''select'' \<and> select_options field \<noteq> []
             then Some (Select (hd (select_options field)))
           else if prop_type field = py ''date'' then Some (Date (strftime_Ymd now))
           else None)" for name
  proof -
    have "py ''date'' \<noteq> py ''select''" by (simp add: py_def)
    then show ?thesis
      unfolding p_def payload_loop_lookup [OF assms(1)]
      by (simp add: hd_conv_nth split: option.splits)
  qed
  have in_schema: "carrier \<in> fst ` set schema"
    by (rule title_property_of_member [OF c])
  have 1: "carrier = (case find (\<lambda>(name, field). prop_type field = py ''title'') schema of
                  None \<Rightarrow> fst (hd schema)
                | Some (name, field) \<Rightarrow> if name = [] then fst (hd schema) else name)"
    unfolding carrier_def find_title_property_find
    by (simp split: option.splits prod.splits)
  have 2: "map_of p carrier = Some (Title title)"
    by (simp add: look split: option.splits)
  have 3: "\<forall>(name, field)\<in>set schema. name \<noteq> carrier \<longrightarrow>
        map_of p name =
          (if prop_type field = py ''select'' \<and> select_options field \<noteq> []
             then Some (Select (hd (select_options field)))
           else if prop_type field = py ''date'' then Some (Date (strftime_Ymd now))
           else None)"
  proof (intro ballI, clarify)
    fix name field
    assume "(name, field) \<in> set schema" and ne: "name \<noteq> carrier"
    then have "map_of schema name = Some field"
      using assms(1) by simp
    with ne show "map_of p name =
          (if prop_type field = py ''select'' \<and> select_options field \<noteq> []
             then Some (Select (hd (select_options field)))
           else if prop_type field = py ''date'' then Some (Date (strftime_Ymd now))
           else None)"
      by (simp add: look)
  qed
  have 4: "\<forall>name. name \<notin> fst ` set schema \<longrightarrow> map_of p name = None"
  proof (intro allI impI)
    fix name
    assume n: "name \<notin> fst ` set schema"
    then have "map_of schema name = None" by (simp add: map_of_eq_None_iff)
    moreover from n in_schema have "name \<noteq> carrier" by blast
    ultimately show "map_of p name = None" by (simp add: look)
  qed
  have 5: "1000 \<le> year now \<and> year now < 10000 \<and> month now < 100 \<and> day now < 100 \<longrightarrow>
        length (strftime_Ymd now) = 10 \<and> strftime_Ymd now ! 4 = 45 \<and>
        strftime_Ymd now ! 7 = 45"
    using strftime_shape [of now] by blast
  from b 1 2 3 4 5 show ?thesis by blast
qed

theorem build_properties_payload_witness:
  "(\<exists>p. build_properties \<lparr>year = 2026, month = 11, day = 3\<rparr> sample_schema sample_task = Inr p \<and>
       map_of p (py ''Name'') = Some (Title (JString (py ''Pack a gym bag''))) \<and>
       map_of p (py ''Status'') = Some (Select (py ''To Do'')) \<and>
       map_of p (py ''Due'') = Some (Date (py ''2026-11-03'')) \<and>
       map_of p (py ''Notes'') = None \<and>
       map_of p (py ''Priority'') = None) \<and>
   length (strftime_Ymd \<lparr>year = 2026, month = 11, day = 3\<rparr>) = 10"
proof -
  let ?now = "\<lparr>year = 2026, month = 11, day = 3\<rparr>"
  have d: "distinct (map fst sample_schema)" by code_simp
  have n: "sample_schema \<noteq> []" by (simp add: sample_schema_def)
  have t: "map_of sample_task (py ''title'') = Some (JString (py ''Pack a gym bag''))"
    by code_simp
  from build_properties_payload [OF d n t, of ?now]
  obtain carrier p where b: "build_properties ?now sample_schema sample_task = Inr p"
    and c: "carrier = (case find (\<lambda>(name, field). prop_type field = py ''title'') sample_schema of
                  None \<Rightarrow> fst (hd sample_schema)
                | Some (name, field) \<Rightarrow> if name = [] then fst (hd sample_schema) else name)"
    and tp: "map_of p carrier = Some (Title (JString (py ''Pack a gym bag'')))"
    and others: "\<forall>(name, field)\<in>set sample_schema. name \<noteq> carrier \<longrightarrow>
        map_of p name =
          (if prop_type field = py ''select'' \<and> select_options field \<noteq> []
             then Some (Select (hd (select_options field)))
           else if prop_type field = py ''date'' then Some (Date (strftime_Ymd ?now))
           else None)"
    and outside: "\<forall>name. name \<notin> fst ` set sample_schema \<longrightarrow> map_of p name = None"
    and shape: "1000 \<le> year ?now \<and> year ?now < 10000 \<and> month ?now < 100 \<and> day ?now < 100 \<longrightarrow>
        length (strftime_Ymd ?now) = 10 \<and> strftime_Ymd ?now ! 4 = 45 \<and>
        strftime_Ymd ?now ! 7 = 45"
    by blast
  have "(case find (\<lambda>(name, field). prop_type field = py ''title'') sample_schema of
                  None \<Rightarrow> fst (hd sample_schema)
                | Some (name, field) \<Rightarrow> if name = [] then fst (hd sample_schema) else name)
          = py ''Name''"
    by code_simp
  with c have c': "carrier = py ''Name''" by simp
  have today: "strftime_Ymd ?now = py ''2026-11-03''" by code_simp
  from others have "map_of p (py ''Status'') = Some (Select (py ''To Do'')) \<and>
       map_of p (py ''Due'') = Some (Date (py ''2026-11-03'')) \<and>
       map_of p (py ''Notes'') = None"
    unfolding c' today sample_schema_def by (simp add: py_def)
  moreover from outside have "map_of p (py ''Priority'') = None"
    unfolding sample_schema_def by (simp add: py_def)
  moreover from shape have "length (strftime_Ymd ?now) = 10" by simp
  ultimately show ?thesis using b tp c' by blast
qed

theorem build_properties_counterexample:
  "find_title_property [] = None \<and>
   build_properties (datetime_now sample_world) [] sample_task = Inl IndexError \<and>
   find_title_property [(py ''Due'', \<lparr>prop_type = py ''date'', select_options = []\<rparr>)] = None \<and>
   build_properties (datetime_now sample_world)
       [(py ''Due'', \<lparr>prop_type = py ''date'', select_options = []\<rparr>)] sample_task
     = Inr [(py ''Due'', Title (JString (py ''Pack a gym bag'')))]"
  by code_simp

lemma get_database_properties_trace:
  "snd (get_database_properties w database_id trace) =
     trace @ [GET (py ''https://api.notion.com/v1/databases/'' @ database_id)]"
  by (auto simp: get_database_properties_def io_bind_def io_lift_def send_def Let_def
      split: sum.splits prod.splits)

lemma posts_append: "posts (xs @ ys) = posts xs + posts ys"
  by (simp add: posts_def)

text \<open>
  C10. When the schema of the destination list has no fields, \<open>create_task_page\<close> raises
  \<open>IndexError\<close> while it resolves the title carrier (the first key of an empty
  dictionary): the only request it has issued is the schema request, so no
  record-creation request is sent and no record is created.
\<close>

theorem create_task_page_empty_schema:
  assumes "fst (get_database_properties w database_id trace) = Inr []"
  shows "title_property_of [] = Inl IndexError \<and>
         create_task_page w database_id task_data trace =
           (Inl IndexError,
            trace @ [GET (py ''https://api.notion.com/v1/databases/'' @ database_id)]) \<and>
         posts (snd (create_task_page w database_id task_data trace)) = posts trace"
proof -
  have t: "title_property_of [] = Inl IndexError"
    by (simp add: title_property_of_def getitem_def)
  from assms have g: "get_database_properties w database_id trace =
      (Inr [], trace @ [GET (py ''https://api.notion.com/v1/databases/'' @ database_id)])"
    using get_database_properties_trace [of w database_id trace]
    by (cases "get_database_properties w database_id trace") simp
  have c: "create_task_page w database_id task_data trace =
           (Inl IndexError,
            trace @ [GET (py ''https://api.notion.com/v1/databases/'' @ database_id)])"
    by (simp add: create_task_page_def io_bind_def g io_lift_def build_properties_def t
        raise_bind_def)
  show ?thesis
    unfolding c using t by (simp add: posts_append posts_def)
qed

theorem create_task_page_empty_schema_witness:
  "fst (get_database_properties (with_database (ok empty_database)) (py ''todo'') []) = Inr [] \<and>
   create_task_page (with_database (ok empty_database)) (py ''todo'') sample_task [] =
     (Inl IndexError, [GET (py ''https://api.notion.com/v1/databases/todo'')]) \<and>
   posts (snd (create_task_page (with_database (ok empty_database)) (py ''todo'') sample_task []))
     = 0"
proof -
  have g: "fst (get_database_properties (with_database (ok empty_database)) (py ''todo'') [])
             = Inr []"
    by code_simp
  from create_task_page_empty_schema [OF g, of sample_task] g show ?thesis
    by (simp add: py_def posts_def)
qed

subsection \<open>Status checks\<close>

lemma check_status_Exception:
  "(check_status what r = Inl (Exception m)) =
     (status_code r \<noteq> 200 \<and> m = failure_message what r)"
  by (auto simp: check_status_def)

lemma read_goals_page_trace:
  "snd (read_goals_page w page_id trace) =
     trace @ [GET (py ''https://api.notion.com/v1/pages/'' @ page_id)]"
  by (auto simp: read_goals_page_def io_bind_def io_lift_def send_def Let_def
      split: sum.splits prod.splits)

lemma read_goals_page_Exception:
  assumes "get_page w (py ''https://api.notion.com/v1/pages/'' @ page_id) = Inr r"
  shows "(fst (read_goals_page w page_id trace) = Inl (Exception m)) =
           (status_code r \<noteq> 200 \<and> m = failure_message (py ''Failed to read page'') r)"
  using assms
  by (auto simp: read_goals_page_def io_bind_def io_lift_def send_def Let_def
      check_status_def response_json_def printed_title_def raise_bind_def getitem_def
      split: sum.splits option.splits)

lemma get_page_content_Exception:
  assumes "fst (read_goals_page w page_id trace) = Inr page_data"
    and "get_children w (py ''https://api.notion.com/v1/blocks/'' @ page_id @ py ''/children'')
           = Inr r"
  shows "(fst (get_page_content w page_id trace) = Inl (Exception m)) =
           (status_code r \<noteq> 200 \<and> m = failure_message (py ''Failed to get page blocks'') r)"
proof -
  from assms(1) obtain trace' where
    "read_goals_page w page_id trace = (Inr page_data, trace')"
    by (cases "read_goals_page w page_id trace") simp
  then show ?thesis
    using assms(2)
    by (auto simp: get_page_content_def io_bind_def io_lift_def send_def Let_def
        check_status_def response_json_def split: sum.splits option.splits)
qed

lemma get_database_properties_Exception:
  assumes "get_database w (py ''https://api.notion.com/v1/databases/'' @ database_id) = Inr r"
  shows "(fst (get_database_properties w database_id trace) = Inl (Exception m)) =
           (status_code r \<noteq> 200 \<and> m = failure_message (py ''Failed to get database'') r)"
  using assms
  by (auto simp: get_database_properties_def io_bind_def io_lift_def send_def Let_def
      check_status_def response_json_def printed_title_def raise_bind_def getitem_def
      split: sum.splits option.splits)

lemma final_write_Exception:
  assumes "post_pages w payload = Inr r"
  shows "(fst (final_write w payload trace) = Inl (Exception m)) =
           (status_code r \<noteq> 200 \<and> m = failure_message (py ''Failed to create task'') r)"
  using assms
  by (auto simp: final_write_def io_bind_def io_lift_def send_def
      check_status_def response_json_def split: sum.splits option.splits)

lemma create_task_page_write:
  assumes "get_database_properties w database_id trace = (Inr props, trace')"
    and "build_properties (datetime_now w) props task_data = Inr properties_payload"
    and "dict_getitem task_data (py ''description'') = Inr description"
  shows "create_task_page w database_id task_data trace =
           final_write w \<lparr>parent_database_id = database_id,
                          payload_properties = properties_payload,
                          children_content = description\<rparr> trace'"
  using assms
  by (simp add: create_task_page_def final_write_def io_bind_def io_lift_def Let_def)

text \<open>
  C7, as amended. For every HTTP response to the document request, the block-children
  request, the schema request and the record-creation request, the operation raises the
  error that carries the status code and the raw response body if and only if the
  status code is not 200: every other status raises it, the other codes of the 2xx
  class included, and a response with status 200 never does.
\<close>

theorem status_error_iff_not_200:
  "failure_message what r =
     what @ py '': '' @ str_int (status_code r) @ py '' - '' @ raw_text r \<and>
   (get_page w (py ''https://api.notion.com/v1/pages/'' @ page_id) = Inr r1 \<longrightarrow>
      (fst (read_goals_page w page_id trace) = Inl (Exception m)) =
        (status_code r1 \<noteq> 200 \<and> m = failure_message (py ''Failed to read page'') r1)) \<and>
   (fst (read_goals_page w page_id trace) = Inr page_data \<longrightarrow>
    get_children w (py ''https://api.notion.com/v1/blocks/'' @ page_id @ py ''/children'')
      = Inr r2 \<longrightarrow>
      (fst (get_page_content w page_id trace) = Inl (Exception m)) =
        (status_code r2 \<noteq> 200 \<and> m = failure_message (py ''Failed to get page blocks'') r2)) \<and>
   (get_database w (py ''https://api.notion.com/v1/databases/'' @ database_id) = Inr r3 \<longrightarrow>
      (fst (get_database_properties w database_id trace) = Inl (Exception m)) =
        (status_code r3 \<noteq> 200 \<and> m = failure_message (py ''Failed to get database'') r3)) \<and>
   (fst (get_database_properties w database_id trace) = Inr props \<longrightarrow>
    build_properties (datetime_now w) props task_data = Inr properties_payload \<longrightarrow>
    dict_getitem task_data (py ''description'') = Inr description \<longrightarrow>
    post_pages w \<lparr>parent_database_id = database_id,
                  payload_properties = properties_payload,
                  children_content = description\<rparr> = Inr r4 \<longrightarrow>
      (fst (create_task_page w database_id task_data trace) = Inl (Exception m)) =
        (status_code r4 \<noteq> 200 \<and> m = failure_message (py ''Failed to create task'') r4))"
proof (intro conjI impI)
  show "failure_message what r =
     what @ py '': '' @ str_int (status_code r) @ py '' - '' @ raw_text r"
    by (simp add: failure_message_def)
next
  assume "get_page w (py ''https://api.notion.com/v1/pages/'' @ page_id) = Inr r1"
  then show "(fst (read_goals_page w page_id trace) = Inl (Exception m)) =
        (status_code r1 \<noteq> 200 \<and> m = failure_message (py ''Failed to read page'') r1)"
    by (rule read_goals_page_Exception)
next
  assume "fst (read_goals_page w page_id trace) = Inr page_data"
    and "get_children w (py ''https://api.notion.com/v1/blocks/'' @ page_id @ py ''/children'')
      = Inr r2"
  then show "(fst (get_page_content w page_id trace) = Inl (Exception m)) =
        (status_code r2 \<noteq> 200 \<and> m = failure_message (py ''Failed to get page blocks'') r2)"
    by (rule get_page_content_Exception)
next
  assume "get_database w (py ''https://api.notion.com/v1/databases/'' @ database_id) = Inr r3"
  then show "(fst (get_database_properties w database_id trace) = Inl (Exception m)) =
        (status_code r3 \<noteq> 200 \<and> m = failure_message (py ''Failed to get database'') r3)"
    by (rule get_database_properties_Exception)
next
  assume g: "fst (get_database_properties w database_id trace) = Inr props"
    and b: "build_properties (datetime_now w) props task_data = Inr properties_payload"
    and d: "dict_getitem task_data (py ''description'') = Inr description"
    and p: "post_pages w \<lparr>parent_database_id = database_id,
                  payload_properties = properties_payload,
                  children_content = description\<rparr> = Inr r4"
  from g obtain trace' where
    "get_database_properties w database_id trace = (Inr props, trace')"
    by (cases "get_database_properties w database_id trace") simp
  from create_task_page_write [OF this b d] final_write_Exception [OF p]
  show "(fst (create_task_page w database_id task_data trace) = Inl (Exception m)) =
        (status_code r4 \<noteq> 200 \<and> m = failure_message (py ''Failed to create task'') r4)"
    by simp
qed

theorem status_error_iff_not_200_witness:
  "fst (read_goals_page
          (with_page (Inr \<lparr>status_code = 404, raw_text = py ''Not found'', body = None\<rparr>))
          (py ''goals'') [])
     = Inl (Exception (py ''Failed to read page: 404 - Not found'')) \<and>
   fst (get_page_content
          (with_children (Inr \<lparr>status_code = 500, raw_text = py ''Oops'', body = None\<rparr>))
          (py ''goals'') [])
     = Inl (Exception (py ''Failed to get page blocks: 500 - Oops'')) \<and>
   fst (get_database_properties
          (with_database (Inr \<lparr>status_code = 403, raw_text = py ''Forbidden'', body = None\<rparr>))
          (py ''todo'') [])
     = Inl (Exception (py ''Failed to get database: 403 - Forbidden'')) \<and>
   fst (create_task_page
          (with_post (Inr \<lparr>status_code = 400, raw_text = py ''Bad request'', body = None\<rparr>))
          (py ''todo'') sample_task [])
     = Inl (Exception (py ''Failed to create task: 400 - Bad request''))"
proof -
  let ?r1 = "\<lparr>status_code = 404, raw_text = py ''Not found'', body = None\<rparr> :: page response"
  let ?r2 = "\<lparr>status_code = 500, raw_text = py ''Oops'', body = None\<rparr>
               :: block list response"
  let ?r3 = "\<lparr>status_code = 403, raw_text = py ''Forbidden'', body = None\<rparr>
               :: database response"
  let ?r4 = "\<lparr>status_code = 400, raw_text = py ''Bad request'', body = None\<rparr>
               :: pystr response"
  have g1: "get_page (with_page (Inr ?r1)) (py ''https://api.notion.com/v1/pages/'' @ py ''goals'')
             = Inr ?r1"
    by (simp add: with_page_def sample_world_def)
  have f1: "failure_message (py ''Failed to read page'') ?r1
             = py ''Failed to read page: 404 - Not found''"
    by code_simp
  from status_error_iff_not_200
    [where w = "with_page (Inr ?r1)" and page_id = "py ''goals''" and ?r1.0 = ?r1
       and trace = "[]" and m = "failure_message (py ''Failed to read page'') ?r1",
     THEN conjunct2, THEN conjunct1] g1 f1
  have 1: "fst (read_goals_page (with_page (Inr ?r1)) (py ''goals'') [])
     = Inl (Exception (py ''Failed to read page: 404 - Not found''))"
    by simp
  have p2: "fst (read_goals_page (with_children (Inr ?r2)) (py ''goals'') [])
             = Inr \<lparr>page_title = Some [py ''Goals'']\<rparr>"
    by code_simp
  have g2: "get_children (with_children (Inr ?r2))
              (py ''https://api.notion.com/v1/blocks/'' @ py ''goals'' @ py ''/children'')
             = Inr ?r2"
    by (simp add: with_children_def sample_world_def)
  have f2: "failure_message (py ''Failed to get page blocks'') ?r2
             = py ''Failed to get page blocks: 500 - Oops''"
    by code_simp
  from status_error_iff_not_200
    [where w = "with_children (Inr ?r2)" and page_id = "py ''goals''" and ?r2.0 = ?r2
       and trace = "[]" and m = "failure_message (py ''Failed to get page blocks'') ?r2"
       and page_data = "\<lparr>page_title = Some [py ''Goals'']\<rparr>",
     THEN conjunct2, THEN conjunct2, THEN conjunct1] p2 g2 f2
  have 2: "fst (get_page_content (with_children (Inr ?r2)) (py ''goals'') [])
     = Inl (Exception (py ''Failed to get page blocks: 500 - Oops''))"
    by simp
  have g3: "get_database (with_database (Inr ?r3))
              (py ''https://api.notion.com/v1/databases/'' @ py ''todo'') = Inr ?r3"
    by (simp add: with_database_def sample_world_def)
  have f3: "failure_message (py ''Failed to get database'') ?r3
             = py ''Failed to get database: 403 - Forbidden''"
    by code_simp
  from status_error_iff_not_200
    [where w = "with_database (Inr ?r3)" and database_id = "py ''todo''" and ?r3.0 = ?r3
       and trace = "[]" and m = "failure_message (py ''Failed to get database'') ?r3",
     THEN conjunct2, THEN conjunct2, THEN conjunct2, THEN conjunct1] g3 f3
  have 3: "fst (get_database_properties (with_database (Inr ?r3)) (py ''todo'') [])
     = Inl (Exception (py ''Failed to get database: 403 - Forbidden''))"
    by simp
  have s4: "fst (get_database_properties (with_post (Inr ?r4)) (py ''todo'') [])
              = Inr sample_schema"
    by code_simp
  have b4: "build_properties (datetime_now (with_post (Inr ?r4))) sample_schema sample_task
              = Inr sample_properties"
    by code_simp
  have d4: "dict_getitem sample_task (py ''description'')
              = Inr (JString (py ''Lay out clothes and shoes tonight.''))"
    by code_simp
  have g4: "post_pages (with_post (Inr ?r4))
              \<lparr>parent_database_id = py ''todo'', payload_properties = sample_properties,
               children_content = JString (py ''Lay out clothes and shoes tonight.'')\<rparr>
             = Inr ?r4"
    by (simp add: with_post_def sample_world_def)
  have f4: "failure_message (py ''Failed to create task'') ?r4
             = py ''Failed to create task: 400 - Bad request''"
    by code_simp
  from status_error_iff_not_200
    [where w = "with_post (Inr ?r4)" and database_id = "py ''todo''" and ?r4.0 = ?r4
       and trace = "[]" and m = "failure_message (py ''Failed to create task'') ?r4"
       and props = sample_schema and task_data = sample_task
       and properties_payload = sample_properties
       and description = "JString (py ''Lay out clothes and shoes tonight.'')",
     THEN conjunct2, THEN conjunct2, THEN conjunct2, THEN conjunct2] s4 b4 d4 g4 f4
  have 4: "fst (create_task_page (with_post (Inr ?r4)) (py ''todo'') sample_task [])
     = Inl (Exception (py ''Failed to create task: 400 - Bad request''))"
    by simp
  from 1 2 3 4 show ?thesis by blast
qed

theorem status_error_counterexample:
  "fst (read_goals_page
          (with_page (Inr \<lparr>status_code = 201, raw_text = py ''{}'',
                           body = Some \<lparr>page_title = Some [py ''Goals'']\<rparr>\<rparr>))
          (py ''goals'') [])
     = Inl (Exception (py ''Failed to read page: 201 - {}'')) \<and>
   fst (read_goals_page
          (with_page (Inr \<lparr>status_code = 200, raw_text = py ''{}'',
                           body = Some \<lparr>page_title = Some []\<rparr>\<rparr>))
          (py ''goals'') [])
     = Inl IndexError"
  by code_simp

subsection \<open>The pipeline\<close>

lemma io_bind_assoc:
  "io_bind (io_bind m f) g = io_bind m (\<lambda>x. io_bind (f x) g)"
  by (rule ext) (simp add: io_bind_def split: prod.splits sum.splits)

lemma io_bind_lift_Inr: "io_bind (io_lift (Inr x)) f = f x"
  by (rule ext) (simp add: io_bind_def io_lift_def)

lemma generate_daily_task_split:
  "generate_daily_task w goals_page_id todo_database_id =
     io_bind (steps_before_write w goals_page_id todo_database_id) (final_write w)"
  unfolding generate_daily_task_def steps_before_write_def create_task_page_def
    final_write_def Let_def
  by (simp add: io_bind_assoc io_bind_lift_Inr)

lemma get_page_content_gets:
  "posts (snd (get_page_content w page_id trace)) = posts trace \<and>
   length (snd (get_page_content w page_id trace)) \<le> length trace + 2"
proof (cases "read_goals_page w page_id trace")
  case (Pair r trace')
  with read_goals_page_trace [of w page_id trace]
  have t: "trace' = trace @ [GET (py ''https://api.notion.com/v1/pages/'' @ page_id)]"
    by simp
  show ?thesis
    unfolding get_page_content_def io_bind_def Pair t
    by (auto simp: io_lift_def send_def Let_def posts_def split: sum.splits prod.splits)
qed

lemma steps_before_write_gets:
  "posts (snd (steps_before_write w g d trace)) = posts trace \<and>
   length (snd (steps_before_write w g d trace)) \<le> length trace + 3"
proof (cases "get_page_content w g trace")
  case (Pair r trace')
  with get_page_content_gets [of w g trace]
  have p: "posts trace' = posts trace" and l: "length trace' \<le> length trace + 2"
    by simp_all
  have db: "snd (get_database_properties w d trace') =
      trace' @ [GET (py ''https://api.notion.com/v1/databases/'' @ d)]"
    by (rule get_database_properties_trace)
  show ?thesis
  proof (cases "get_database_properties w d trace'")
    case (Pair r2 trace2)
    with db have t2: "trace2 = trace' @ [GET (py ''https://api.notion.com/v1/databases/'' @ d)]"
      by simp
    show ?thesis
      unfolding steps_before_write_def io_bind_def \<open>get_page_content w g trace = (r, trace')\<close>
      using p l Pair t2
      by (auto simp: io_lift_def Let_def posts_def split: sum.splits prod.splits)
  qed
qed

lemma final_write_trace:
  "snd (final_write w payload trace) =
     trace @ [POST (py ''https://api.notion.com/v1/pages'') payload]"
  by (auto simp: final_write_def io_bind_def io_lift_def send_def
      split: sum.splits prod.splits)

text \<open>
  C1. A run of \<open>generate_daily_task\<close> is the steps before the final write followed by the
  final write. When every step succeeds, exactly one record-creation request has been
  issued. When any step before the final write raises, the run raises the same
  exception and no record-creation request has been issued. When the steps before the
  write succeed, the request is issued once, as the last request of the run, whatever
  its answer. So a run issues one record-creation request or none, never more, and at
  most four requests in all.
\<close>

theorem one_record_or_none:
  "generate_daily_task w g d = io_bind (steps_before_write w g d) (final_write w) \<and>
   posts (snd (generate_daily_task w g d [])) \<le> 1 \<and>
   length (snd (generate_daily_task w g d [])) \<le> 4 \<and>
   (fst (generate_daily_task w g d []) = Inr task_id \<longrightarrow>
      posts (snd (generate_daily_task w g d [])) = 1) \<and>
   (fst (steps_before_write w g d []) = Inl e \<longrightarrow>
      fst (generate_daily_task w g d []) = Inl e \<and>
      posts (snd (generate_daily_task w g d [])) = 0) \<and>
   (fst (get_page_content w g []) = Inl e \<longrightarrow>
      posts (snd (generate_daily_task w g d [])) = 0) \<and>
   (fst (steps_before_write w g d []) = Inr payload \<longrightarrow>
      posts (snd (generate_daily_task w g d [])) = 1 \<and>
      snd (generate_daily_task w g d []) =
        snd (steps_before_write w g d []) @
          [POST (py ''https://api.notion.com/v1/pages'') payload])"
proof -
  obtain r trace where s: "steps_before_write w g d [] = (r, trace)"
    by (cases "steps_before_write w g d []")
  from steps_before_write_gets [of w g d "[]"] s
  have p: "posts trace = 0" and l: "length trace \<le> 3"
    by (simp_all add: posts_def)
  have split: "generate_daily_task w g d = io_bind (steps_before_write w g d) (final_write w)"
    by (rule generate_daily_task_split)
  have failed: "generate_daily_task w g d [] = (Inl x, trace)" if "r = Inl x" for x
    using that s by (simp add: split io_bind_def)
  have written: "generate_daily_task w g d [] = final_write w x trace" if "r = Inr x" for x
    using that s by (simp add: split io_bind_def)
  have wtrace: "snd (generate_daily_task w g d []) =
      trace @ [POST (py ''https://api.notion.com/v1/pages'') x]" if "r = Inr x" for x
    using written [OF that] final_write_trace [of w x trace] by simp
  have fetch: "r = Inl e" if "fst (get_page_content w g []) = Inl e"
  proof -
    from that obtain t where "get_page_content w g [] = (Inl e, t)"
      by (cases "get_page_content w g []") simp
    with s show ?thesis
      by (simp add: steps_before_write_def io_bind_def)
  qed
  have 1: "posts (snd (generate_daily_task w g d [])) \<le> 1"
    using failed wtrace p by (cases r) (simp_all add: posts_append, simp add: posts_def)
  have 2: "length (snd (generate_daily_task w g d [])) \<le> 4"
    using failed wtrace l by (cases r) simp_all
  have 3: "fst (generate_daily_task w g d []) = Inr task_id \<longrightarrow>
      posts (snd (generate_daily_task w g d [])) = 1"
    using failed wtrace p by (cases r) (simp_all add: posts_append, simp add: posts_def)
  have 4: "fst (steps_before_write w g d []) = Inl e \<longrightarrow>
      fst (generate_daily_task w g d []) = Inl e \<and>
      posts (snd (generate_daily_task w g d [])) = 0"
    using failed p s by simp
  have 5: "fst (get_page_content w g []) = Inl e \<longrightarrow>
      posts (snd (generate_daily_task w g d [])) = 0"
    using failed fetch p by simp
  have 6: "fst (steps_before_write w g d []) = Inr payload \<longrightarrow>
      posts (snd (generate_daily_task w g d [])) = 1 \<and>
      snd (generate_daily_task w g d []) =
        snd (steps_before_write w g d []) @
          [POST (py ''https://api.notion.com/v1/pages'') payload]"
    using wtrace p s by (simp add: posts_append) (simp add: posts_def)
  from split 1 2 3 4 5 6 show ?thesis by blast
qed

theorem one_record_or_none_witness:
  "fst (generate_daily_task sample_world (py ''goals'') (py ''todo'') []) = Inr (py ''page-1'') \<and>
   posts (snd (generate_daily_task sample_world (py ''goals'') (py ''todo'') [])) = 1 \<and>
   fst (steps_before_write sample_world (py ''goals'') (py ''todo'') []) = Inr sample_payload \<and>
   last (snd (generate_daily_task sample_world (py ''goals'') (py ''todo'') []))
     = POST (py ''https://api.notion.com/v1/pages'') sample_payload \<and>
   fst (get_page_content
          (with_page (Inr \<lparr>status_code = 404, raw_text = py ''Not found'', body = None\<rparr>))
          (py ''goals'') [])
     = Inl (Exception (py ''Failed to read page: 404 - Not found'')) \<and>
   posts (snd (generate_daily_task
          (with_page (Inr \<lparr>status_code = 404, raw_text = py ''Not found'', body = None\<rparr>))
          (py ''goals'') (py ''todo'') [])) = 0 \<and>
   fst (steps_before_write (with_database (ok empty_database)) (py ''goals'') (py ''todo'') [])
     = Inl IndexError \<and>
   fst (generate_daily_task (with_database (ok empty_database)) (py ''goals'') (py ''todo'') [])
     = Inl IndexError \<and>
   posts (snd (generate_daily_task (with_database (ok empty_database))
          (py ''goals'') (py ''todo'') [])) = 0"
proof -
  let ?w404 = "with_page (Inr \<lparr>status_code = 404, raw_text = py ''Not found'', body = None\<rparr>)"
  let ?wempty = "with_database (ok empty_database)"
  have a: "fst (generate_daily_task sample_world (py ''goals'') (py ''todo'') [])
             = Inr (py ''page-1'')"
    by code_simp
  have s: "fst (steps_before_write sample_world (py ''goals'') (py ''todo'') [])
             = Inr sample_payload"
    by code_simp
  have b: "fst (get_page_content ?w404 (py ''goals'') [])
     = Inl (Exception (py ''Failed to read page: 404 - Not found''))"
    by code_simp
  have c: "fst (steps_before_write ?wempty (py ''goals'') (py ''todo'') []) = Inl IndexError"
    by code_simp
  note t = one_record_or_none [where g = "py ''goals''" and d = "py ''todo''"]
  from t [where w = sample_world and task_id = "py ''page-1''"] a
  have 1: "posts (snd (generate_daily_task sample_world (py ''goals'') (py ''todo'') [])) = 1"
    by blast
  from t [where w = sample_world and payload = sample_payload] s
  have "snd (generate_daily_task sample_world (py ''goals'') (py ''todo'') []) =
        snd (steps_before_write sample_world (py ''goals'') (py ''todo'') []) @
          [POST (py ''https://api.notion.com/v1/pages'') sample_payload]"
    by blast
  then have 2: "last (snd (generate_daily_task sample_world (py ''goals'') (py ''todo'') []))
     = POST (py ''https://api.notion.com/v1/pages'') sample_payload"
    by simp
  from t [where w = ?w404
       and e = "Exception (py ''Failed to read page: 404 - Not found'')"] b
  have 3: "posts (snd (generate_daily_task ?w404 (py ''goals'') (py ''todo'') [])) = 0"
    by blast
  from t [where w = ?wempty and e = IndexError] c
  have 4: "fst (generate_daily_task ?wempty (py ''goals'') (py ''todo'') []) = Inl IndexError \<and>
      posts (snd (generate_daily_task ?wempty (py ''goals'') (py ''todo'') [])) = 0"
    by blast
  from a s b c 1 2 3 4 show ?thesis by blast
qed

subsection \<open>Task Generator\<close>

lemma parse_reply_shape:
  "parse_reply w response_text = Inr result \<Longrightarrow> \<exists>t d. result = task_dict t d"
  by (auto simp: parse_reply_def raise_bind_def fallback_scan_def Let_def
      split: sum.splits error.splits prod.splits)

lemma attempt_generation_shape:
  "attempt_generation w selected_task = Inr result \<Longrightarrow> \<exists>t d. result = task_dict t d"
  by (auto simp: attempt_generation_def raise_bind_def
      split: sum.splits option.splits dest: parse_reply_shape)

text \<open>
  C3. The Task Generator never raises: for every goal and every behaviour of the
  completion call, of the reply and of \<open>json.loads\<close> it returns a dictionary whose keys
  are \<open>title\<close> and \<open>description\<close>. When the attempt raises anywhere, and so when the
  completion call fails, returns no choice or returns a choice without text, the result
  is exactly the two defaults.
\<close>

theorem generate_task_never_raises:
  "(\<exists>title description.
      generate_task_with_chatgpt w selected_task =
        Inr [(py ''title'', title), (py ''description'', description)]) \<and>
   (attempt_generation w selected_task = Inl e \<longrightarrow>
      generate_task_with_chatgpt w selected_task =
        Inr [(py ''title'', JString (py ''Daily Task'')),
             (py ''description'', JString (py ''Task related to your goals''))]) \<and>
   (chat_completions_create w (prompt_text selected_task) = Inl e \<longrightarrow>
      generate_task_with_chatgpt w selected_task =
        Inr [(py ''title'', JString (py ''Daily Task'')),
             (py ''description'', JString (py ''Task related to your goals''))]) \<and>
   (chat_completions_create w (prompt_text selected_task) = Inr \<lparr>choices = []\<rparr> \<longrightarrow>
      generate_task_with_chatgpt w selected_task =
        Inr [(py ''title'', JString (py ''Daily Task'')),
             (py ''description'', JString (py ''Task related to your goals''))]) \<and>
   (chat_completions_create w (prompt_text selected_task) = Inr \<lparr>choices = None # rest\<rparr> \<longrightarrow>
      generate_task_with_chatgpt w selected_task =
        Inr [(py ''title'', JString (py ''Daily Task'')),
             (py ''description'', JString (py ''Task related to your goals''))])"
proof (intro conjI impI)
  show "\<exists>title description.
      generate_task_with_chatgpt w selected_task =
        Inr [(py ''title'', title), (py ''description'', description)]"
  proof (cases "attempt_generation w selected_task")
    case (Inl x)
    then show ?thesis
      by (simp add: generate_task_with_chatgpt_def task_dict_def)
  next
    case (Inr result)
    with attempt_generation_shape [OF Inr] show ?thesis
      by (auto simp: generate_task_with_chatgpt_def task_dict_def)
  qed
next
  assume "attempt_generation w selected_task = Inl e"
  then show "generate_task_with_chatgpt w selected_task =
        Inr [(py ''title'', JString (py ''Daily Task'')),
             (py ''description'', JString (py ''Task related to your goals''))]"
    by (simp add: generate_task_with_chatgpt_def task_dict_def default_title_def
        default_description_def)
next
  assume "chat_completions_create w (prompt_text selected_task) = Inl e"
  then show "generate_task_with_chatgpt w selected_task =
        Inr [(py ''title'', JString (py ''Daily Task'')),
             (py ''description'', JString (py ''Task related to your goals''))]"
    by (simp add: generate_task_with_chatgpt_def attempt_generation_def raise_bind_def
        task_dict_def default_title_def default_description_def)
next
  assume "chat_completions_create w (prompt_text selected_task) = Inr \<lparr>choices = []\<rparr>"
  then show "generate_task_with_chatgpt w selected_task =
        Inr [(py ''title'', JString (py ''Daily Task'')),
             (py ''description'', JString (py ''Task related to your goals''))]"
    by (simp add: generate_task_with_chatgpt_def attempt_generation_def raise_bind_def
        getitem_def task_dict_def default_title_def default_description_def)
next
  assume "chat_completions_create w (prompt_text selected_task) = Inr \<lparr>choices = None # rest\<rparr>"
  then show "generate_task_with_chatgpt w selected_task =
        Inr [(py ''title'', JString (py ''Daily Task'')),
             (py ''description'', JString (py ''Task related to your goals''))]"
    by (simp add: generate_task_with_chatgpt_def attempt_generation_def raise_bind_def
        getitem_def task_dict_def default_title_def default_description_def)
qed

theorem generate_task_never_raises_witness:
  "generate_task_with_chatgpt (failing_completion (LibraryError (py ''APITimeoutError'')))
      (py ''Learn Spanish'')
     = Inr [(py ''title'', JString (py ''Daily Task'')),
            (py ''description'', JString (py ''Task related to your goals''))] \<and>
   generate_task_with_chatgpt
      (sample_world\<lparr>chat_completions_create := (\<lambda>prompt. Inr \<lparr>choices = []\<rparr>)\<rparr>)
      (py ''Learn Spanish'')
     = Inr [(py ''title'', JString (py ''Daily Task'')),
            (py ''description'', JString (py ''Task related to your goals''))] \<and>
   generate_task_with_chatgpt
      (sample_world\<lparr>chat_completions_create := (\<lambda>prompt. Inr \<lparr>choices = [None]\<rparr>)\<rparr>)
      (py ''Learn Spanish'')
     = Inr [(py ''title'', JString (py ''Daily Task'')),
            (py ''description'', JString (py ''Task related to your goals''))] \<and>
   attempt_generation (replying string_reply) (py ''Learn Spanish'') = Inl AttributeError \<and>
   generate_task_with_chatgpt (replying string_reply) (py ''Learn Spanish'')
     = Inr [(py ''title'', JString (py ''Daily Task'')),
            (py ''description'', JString (py ''Task related to your goals''))]"
proof -
  let ?goal = "py ''Learn Spanish''"
  let ?timeout = "failing_completion (LibraryError (py ''APITimeoutError''))"
  let ?nochoice = "sample_world\<lparr>chat_completions_create := (\<lambda>prompt. Inr \<lparr>choices = []\<rparr>)\<rparr>"
  let ?notext = "sample_world\<lparr>chat_completions_create := (\<lambda>prompt. Inr \<lparr>choices = [None]\<rparr>)\<rparr>"
  have c: "chat_completions_create ?timeout (prompt_text ?goal)
      = Inl (LibraryError (py ''APITimeoutError''))"
    by (simp add: failing_completion_def sample_world_def)
  have n: "chat_completions_create ?nochoice (prompt_text ?goal) = Inr \<lparr>choices = []\<rparr>"
    by simp
  have x: "chat_completions_create ?notext (prompt_text ?goal) = Inr \<lparr>choices = None # []\<rparr>"
    by simp
  have a: "attempt_generation (replying string_reply) ?goal = Inl AttributeError"
    by code_simp
  note t = generate_task_never_raises [where selected_task = ?goal]
  from t [where w = ?timeout and e = "LibraryError (py ''APITimeoutError'')"] c
  have 1: "generate_task_with_chatgpt ?timeout ?goal
     = Inr [(py ''title'', JString (py ''Daily Task'')),
            (py ''description'', JString (py ''Task related to your goals''))]"
    by blast
  from t [where w = ?nochoice] n
  have 2: "generate_task_with_chatgpt ?nochoice ?goal
     = Inr [(py ''title'', JString (py ''Daily Task'')),
            (py ''description'', JString (py ''Task related to your goals''))]"
    by blast
  from t [where w = ?notext and rest = "[]"] x
  have 3: "generate_task_with_chatgpt ?notext ?goal
     = Inr [(py ''title'', JString (py ''Daily Task'')),
            (py ''description'', JString (py ''Task related to your goals''))]"
    by blast
  from t [where w = "replying string_reply" and e = AttributeError] a
  have 4: "generate_task_with_chatgpt (replying string_reply) ?goal
     = Inr [(py ''title'', JString (py ''Daily Task'')),
            (py ''description'', JString (py ''Task related to your goals''))]"
    by blast
  from 1 2 3 4 a show ?thesis by blast
qed

lemma attempt_on_reply:
  assumes "chat_completions_create w (prompt_text goal) = Inr \<lparr>choices = Some reply # rest\<rparr>"
  shows "attempt_generation w goal = parse_reply w (strip reply)"
  using assms by (simp add: attempt_generation_def raise_bind_def getitem_def)

lemma generate_on_object:
  assumes "chat_completions_create w (prompt_text goal) = Inr \<lparr>choices = Some reply # rest\<rparr>"
    and "strip_fences (strip reply) = Inr cleaned"
    and "json_loads w cleaned = Inr (JObject kvs)"
  shows "generate_task_with_chatgpt w goal =
     Inr [(py ''title'',
             case map_of kvs (py ''title'') of
               None \<Rightarrow> JString (py ''Daily Task'') | Some v \<Rightarrow> v),
          (py ''description'',
             case map_of kvs (py ''description'') of
               None \<Rightarrow> JString (py ''Task related to your goals'') | Some v \<Rightarrow> v)]"
  using assms(2,3)
  by (simp add: generate_task_with_chatgpt_def attempt_on_reply [OF assms(1)] parse_reply_def
      raise_bind_def json_get_def dict_get_def task_dict_def default_title_def
      default_description_def)

lemma generate_on_other_value:
  assumes "chat_completions_create w (prompt_text goal) = Inr \<lparr>choices = Some reply # rest\<rparr>"
    and "strip_fences (strip reply) = Inr cleaned"
    and "json_loads w cleaned = Inr v"
    and "\<forall>kvs. v \<noteq> JObject kvs"
  shows "generate_task_with_chatgpt w goal =
     Inr [(py ''title'', JString (py ''Daily Task'')),
          (py ''description'', JString (py ''Task related to your goals''))]"
proof -
  from assms(4) have "json_get v k dflt = Inl AttributeError" for k dflt
    by (cases v) (simp_all add: json_get_def)
  with assms(2,3) show ?thesis
    by (simp add: generate_task_with_chatgpt_def attempt_on_reply [OF assms(1)] parse_reply_def
        raise_bind_def task_dict_def default_title_def default_description_def)
qed

lemma scan_lines_no_match:
  assumes "\<forall>l\<in>set lines. \<not> contains (lower l) (py ''title'') \<and>
             \<not> contains (lower l) (py ''description'')"
  shows "scan_lines t d lines = (t, d)"
  using assms by (induction lines arbitrary: t d) auto

lemma scan_lines_last_match:
  "scan_lines t d lines =
     (let ts = filter (\<lambda>l. contains (lower l) (py ''title'')) lines
      in if ts = [] then t else after_last_colon (last ts),
      let ds = filter (\<lambda>l. \<not> contains (lower l) (py ''title'') \<and>
                            contains (lower l) (py ''description'')) lines
      in if ds = [] then d else after_last_colon (last ds))"
  by (induction lines arbitrary: t d) (auto simp: Let_def)

lemma generate_on_garbage:
  assumes c: "chat_completions_create w (prompt_text goal) = Inr \<lparr>choices = Some reply # rest\<rparr>"
    and f: "strip_fences (strip reply) = Inr cleaned"
    and j: "json_loads w cleaned = Inl e"
    and t: "\<not> contains (lower reply) (py ''title'')"
    and d: "\<not> contains (lower reply) (py ''description'')"
  shows "generate_task_with_chatgpt w goal =
     Inr [(py ''title'', JString (py ''Daily Task'')),
          (py ''description'', JString (py ''Task related to your goals''))]"
proof (cases "e = JSONDecodeError")
  case True
  have part: "sublist cleaned reply"
    using strip_fences_sublist [OF f] strip_sublist [of reply]
      sublist_order.order_trans by blast
  have "\<forall>l\<in>set (split cleaned (py ''\<newline>'')).
          \<not> contains (lower l) (py ''title'') \<and> \<not> contains (lower l) (py ''description'')"
  proof
    fix l assume "l \<in> set (split cleaned (py ''\<newline>''))"
    then have "sublist l cleaned" by (rule split_sublist)
    with part have "sublist l reply"
      using sublist_order.order_trans by blast
    with t d show "\<not> contains (lower l) (py ''title'') \<and>
        \<not> contains (lower l) (py ''description'')"
      using contains_lower_mono by blast
  qed
  then have "fallback_scan cleaned =
      task_dict (JString default_title) (JString default_description)"
    by (simp add: fallback_scan_def scan_lines_no_match)
  with True f j show ?thesis
    by (simp add: generate_task_with_chatgpt_def attempt_on_reply [OF c] parse_reply_def
        raise_bind_def task_dict_def default_title_def default_description_def)
next
  case False
  with f j show ?thesis
    by (cases e)
      (simp_all add: generate_task_with_chatgpt_def attempt_on_reply [OF c] parse_reply_def
        raise_bind_def task_dict_def default_title_def default_description_def)
qed

text \<open>
  C6. Given the reply \<open>{"title":"Pack a gym bag","description":"Lay out clothes and shoes
  tonight."}\<close>, decoded by \<open>json.loads\<close> to the object with these two members, the Task
  Generator returns that title and description. Given the same JSON inside a fence
  tagged \<open>json\<close>, it removes the fence and decodes the inner text, with the same result.
  Whenever the cleaned reply decodes to an object, a missing \<open>title\<close> or \<open>description\<close>
  is replaced by its default; when it decodes to anything else, both are. Whenever the cleaned reply does not decode and the reply
  contains neither \<open>title\<close> nor \<open>description\<close> in any case, the result is the two
  defaults. The cleaned reply always exists: removing the fence never raises.
\<close>

theorem generate_task_parses_reply:
  "(chat_completions_create w (prompt_text goal) = Inr \<lparr>choices = Some sample_reply # rest\<rparr> \<longrightarrow>
    json_loads w sample_reply =
      Inr (JObject [(py ''title'', JString (py ''Pack a gym bag'')),
                    (py ''description'', JString (py ''Lay out clothes and shoes tonight.''))]) \<longrightarrow>
    generate_task_with_chatgpt w goal =
      Inr [(py ''title'', JString (py ''Pack a gym bag'')),
           (py ''description'', JString (py ''Lay out clothes and shoes tonight.''))]) \<and>
   strip_fences (strip fenced_reply) = Inr sample_reply \<and>
   (chat_completions_create w (prompt_text goal) = Inr \<lparr>choices = Some fenced_reply # rest\<rparr> \<longrightarrow>
    json_loads w sample_reply =
      Inr (JObject [(py ''title'', JString (py ''Pack a gym bag'')),
                    (py ''description'', JString (py ''Lay out clothes and shoes tonight.''))]) \<longrightarrow>
    generate_task_with_chatgpt w goal =
      Inr [(py ''title'', JString (py ''Pack a gym bag'')),
           (py ''description'', JString (py ''Lay out clothes and shoes tonight.''))]) \<and>
   (\<exists>inner. strip_fences (strip reply) = Inr inner) \<and>
   (chat_completions_create w (prompt_text goal) = Inr \<lparr>choices = Some reply # rest\<rparr> \<longrightarrow>
    strip_fences (strip reply) = Inr cleaned \<longrightarrow>
    json_loads w cleaned = Inr (JObject kvs) \<longrightarrow>
    generate_task_with_chatgpt w goal =
      Inr [(py ''title'',
              case map_of kvs (py ''title'') of
                None \<Rightarrow> JString (py ''Daily Task'') | Some v \<Rightarrow> v),
           (py ''description'',
              case map_of kvs (py ''description'') of
                None \<Rightarrow> JString (py ''Task related to your goals'') | Some v \<Rightarrow> v)]) \<and>
   (chat_completions_create w (prompt_text goal) = Inr \<lparr>choices = Some reply # rest\<rparr> \<longrightarrow>
    strip_fences (strip reply) = Inr cleaned \<longrightarrow>
    json_loads w cleaned = Inr v \<longrightarrow>
    (\<forall>kvs. v \<noteq> JObject kvs) \<longrightarrow>
    generate_task_with_chatgpt w goal =
      Inr [(py ''title'', JString (py ''Daily Task'')),
           (py ''description'', JString (py ''Task related to your goals''))]) \<and>
   (chat_completions_create w (prompt_text goal) = Inr \<lparr>choices = Some reply # rest\<rparr> \<longrightarrow>
    strip_fences (strip reply) = Inr cleaned \<longrightarrow>
    json_loads w cleaned = Inl e \<longrightarrow>
    \<not> contains (lower reply) (py ''title'') \<longrightarrow>
    \<not> contains (lower reply) (py ''description'') \<longrightarrow>
    generate_task_with_chatgpt w goal =
      Inr [(py ''title'', JString (py ''Daily Task'')),
           (py ''description'', JString (py ''Task related to your goals''))])"
proof (intro conjI impI)
  have plain: "strip_fences (strip sample_reply) = Inr sample_reply"
    by code_simp
  have members:
    "map_of [(py ''title'', JString (py ''Pack a gym bag'')),
             (py ''description'', JString (py ''Lay out clothes and shoes tonight.''))]
       (py ''title'') = Some (JString (py ''Pack a gym bag''))"
    "map_of [(py ''title'', JString (py ''Pack a gym bag'')),
             (py ''description'', JString (py ''Lay out clothes and shoes tonight.''))]
       (py ''description'') = Some (JString (py ''Lay out clothes and shoes tonight.''))"
    by (simp_all add: py_def)
  show fenced: "strip_fences (strip fenced_reply) = Inr sample_reply"
    by code_simp
  {
    assume "chat_completions_create w (prompt_text goal) =
        Inr \<lparr>choices = Some sample_reply # rest\<rparr>"
      and "json_loads w sample_reply =
        Inr (JObject [(py ''title'', JString (py ''Pack a gym bag'')),
                      (py ''description'', JString (py ''Lay out clothes and shoes tonight.''))])"
    from generate_on_object [OF this(1) plain this(2)]
    show "generate_task_with_chatgpt w goal =
      Inr [(py ''title'', JString (py ''Pack a gym bag'')),
           (py ''description'', JString (py ''Lay out clothes and shoes tonight.''))]"
      unfolding members by simp
  }
  {
    assume "chat_completions_create w (prompt_text goal) =
        Inr \<lparr>choices = Some fenced_reply # rest\<rparr>"
      and "json_loads w sample_reply =
        Inr (JObject [(py ''title'', JString (py ''Pack a gym bag'')),
                      (py ''description'', JString (py ''Lay out clothes and shoes tonight.''))])"
    from generate_on_object [OF this(1) fenced this(2)]
    show "generate_task_with_chatgpt w goal =
      Inr [(py ''title'', JString (py ''Pack a gym bag'')),
           (py ''description'', JString (py ''Lay out clothes and shoes tonight.''))]"
      unfolding members by simp
  }
  show "\<exists>inner. strip_fences (strip reply) = Inr inner"
    by (rule strip_fences_total)
  {
    assume "chat_completions_create w (prompt_text goal) = Inr \<lparr>choices = Some reply # rest\<rparr>"
      and "strip_fences (strip reply) = Inr cleaned"
      and "json_loads w cleaned = Inr (JObject kvs)"
    then show "generate_task_with_chatgpt w goal =
      Inr [(py ''title'',
              case map_of kvs (py ''title'') of
                None \<Rightarrow> JString (py ''Daily Task'') | Some v \<Rightarrow> v),
           (py ''description'',
              case map_of kvs (py ''description'') of
                None \<Rightarrow> JString (py ''Task related to your goals'') | Some v \<Rightarrow> v)]"
      by (rule generate_on_object)
  }
  {
    assume "chat_completions_create w (prompt_text goal) = Inr \<lparr>choices = Some reply # rest\<rparr>"
      and "strip_fences (strip reply) = Inr cleaned"
      and "json_loads w cleaned = Inr v"
      and "\<forall>kvs. v \<noteq> JObject kvs"
    then show "generate_task_with_chatgpt w goal =
      Inr [(py ''title'', JString (py ''Daily Task'')),
           (py ''description'', JString (py ''Task related to your goals''))]"
      by (rule generate_on_other_value)
  }
  {
    assume "chat_completions_create w (prompt_text goal) = Inr \<lparr>choices = Some reply # rest\<rparr>"
      and "strip_fences (strip reply) = Inr cleaned"
      and "json_loads w cleaned = Inl e"
      and "\<not> contains (lower reply) (py ''title'')"
      and "\<not> contains (lower reply) (py ''description'')"
    then show "generate_task_with_chatgpt w goal =
      Inr [(py ''title'', JString (py ''Daily Task'')),
           (py ''description'', JString (py ''Task related to your goals''))]"
      by (rule generate_on_garbage)
  }
qed

theorem generate_task_parses_reply_witness:
  "generate_task_with_chatgpt sample_world (py ''Learn Spanish'') =
     Inr [(py ''title'', JString (py ''Pack a gym bag'')),
          (py ''description'', JString (py ''Lay out clothes and shoes tonight.''))] \<and>
   generate_task_with_chatgpt (replying fenced_reply) (py ''Learn Spanish'') =
     Inr [(py ''title'', JString (py ''Pack a gym bag'')),
          (py ''description'', JString (py ''Lay out clothes and shoes tonight.''))] \<and>
   generate_task_with_chatgpt (replying title_only_reply) (py ''Learn Spanish'') =
     Inr [(py ''title'', JString (py ''Pack a gym bag'')),
          (py ''description'', JString (py ''Task related to your goals''))] \<and>
   generate_task_with_chatgpt (replying garbage_reply) (py ''Learn Spanish'') =
     Inr [(py ''title'', JString (py ''Daily Task'')),
          (py ''description'', JString (py ''Task related to your goals''))] \<and>
   generate_task_with_chatgpt (replying string_reply) (py ''Learn Spanish'') =
     Inr [(py ''title'', JString (py ''Daily Task'')),
          (py ''description'', JString (py ''Task related to your goals''))]"
proof -
  let ?goal = "py ''Learn Spanish''"
  have c: "chat_completions_create (replying r) (prompt_text ?goal) =
      Inr \<lparr>choices = Some r # []\<rparr>" for r
    by (simp add: replying_def sample_world_def)
  have c0: "chat_completions_create sample_world (prompt_text ?goal) =
      Inr \<lparr>choices = Some sample_reply # []\<rparr>"
    by (simp add: sample_world_def)
  have l: "json_loads (replying r) = sample_loads" for r
    by (simp add: replying_def sample_world_def)
  have l0: "json_loads sample_world = sample_loads"
    by (simp add: sample_world_def)
  have j: "sample_loads sample_reply =
      Inr (JObject [(py ''title'', JString (py ''Pack a gym bag'')),
                    (py ''description'', JString (py ''Lay out clothes and shoes tonight.''))])"
    by code_simp
  have jt: "sample_loads title_only_reply =
      Inr (JObject [(py ''title'', JString (py ''Pack a gym bag''))])"
    by code_simp
  have jg: "sample_loads garbage_reply = Inl JSONDecodeError"
    by code_simp
  have ft: "strip_fences (strip title_only_reply) = Inr title_only_reply"
    by code_simp
  have fg: "strip_fences (strip garbage_reply) = Inr garbage_reply"
    by code_simp
  have nt: "\<not> contains (lower garbage_reply) (py ''title'')"
    by code_simp
  have nd: "\<not> contains (lower garbage_reply) (py ''description'')"
    by code_simp
  note t = generate_task_parses_reply [where goal = ?goal and rest = "[]"]
  from t [where w = sample_world] c0 j
  have 1: "generate_task_with_chatgpt sample_world ?goal =
     Inr [(py ''title'', JString (py ''Pack a gym bag'')),
          (py ''description'', JString (py ''Lay out clothes and shoes tonight.''))]"
    by (simp add: l0)
  from t [where w = "replying fenced_reply"] c [of fenced_reply] j
  have 2: "generate_task_with_chatgpt (replying fenced_reply) ?goal =
     Inr [(py ''title'', JString (py ''Pack a gym bag'')),
          (py ''description'', JString (py ''Lay out clothes and shoes tonight.''))]"
    by (simp add: l)
  from t [where w = "replying title_only_reply" and reply = title_only_reply
      and cleaned = title_only_reply
      and kvs = "[(py ''title'', JString (py ''Pack a gym bag''))]"]
    c [of title_only_reply] ft jt
  have 3: "generate_task_with_chatgpt (replying title_only_reply) ?goal =
     Inr [(py ''title'', JString (py ''Pack a gym bag'')),
          (py ''description'', JString (py ''Task related to your goals''))]"
    by (simp add: l py_def)
  from t [where w = "replying garbage_reply" and reply = garbage_reply
      and cleaned = garbage_reply and e = JSONDecodeError]
    c [of garbage_reply] fg jg nt nd
  have 4: "generate_task_with_chatgpt (replying garbage_reply) ?goal =
     Inr [(py ''title'', JString (py ''Daily Task'')),
          (py ''description'', JString (py ''Task related to your goals''))]"
    by (simp add: l)
  have js: "sample_loads string_reply = Inr (JString (py ''Pack a gym bag''))"
    by code_simp
  have fs: "strip_fences (strip string_reply) = Inr string_reply"
    by code_simp
  from t [where w = "replying string_reply" and reply = string_reply
      and cleaned = string_reply and v = "JString (py ''Pack a gym bag'')"]
    c [of string_reply] fs js
  have 5: "generate_task_with_chatgpt (replying string_reply) ?goal =
     Inr [(py ''title'', JString (py ''Daily Task'')),
          (py ''description'', JString (py ''Task related to your goals''))]"
    by (simp add: l)
  from 1 2 3 4 5 show ?thesis by blast
qed

text \<open>
  C9, as amended. When strict JSON parsing of the completion reply fails, the Task
  Generator splits the reply as it is after trimming and after the removal of a leading
  Markdown fence (not the raw reply) on newlines. The title is taken from the last line
  that contains \<open>title\<close>, whatever its case; the description from the last line that
  contains \<open>description\<close> and does not contain \<open>title\<close> (a line with both words only
  sets the title). The value taken from a line is what follows its last colon (the whole
  line when it has none), trimmed of surrounding whitespace and then of surrounding
  double quotes. Without a matching line the default is kept.
\<close>

theorem fallback_line_scan:
  assumes "chat_completions_create w (prompt_text goal) = Inr \<lparr>choices = Some reply # rest\<rparr>"
    and "strip_fences (strip reply) = Inr cleaned"
    and "json_loads w cleaned = Inl JSONDecodeError"
  shows "generate_task_with_chatgpt w goal =
      Inr [(py ''title'',
              JString (let ts = filter (\<lambda>l. contains (lower l) (py ''title''))
                                  (split cleaned (py ''\<newline>''))
                       in if ts = [] then py ''Daily Task'' else after_last_colon (last ts))),
           (py ''description'',
              JString (let ds = filter (\<lambda>l. \<not> contains (lower l) (py ''title'') \<and>
                                             contains (lower l) (py ''description''))
                                  (split cleaned (py ''\<newline>''))
                       in if ds = [] then py ''Task related to your goals''
                          else after_last_colon (last ds)))] \<and>
    after_last_colon line = strip_char 34 (strip (last (split line (py '':'')))) \<and>
    sublist cleaned reply \<and>
    (\<not> startswith (strip reply) (py ''```'') \<longrightarrow> cleaned = strip reply)"
proof (intro conjI impI)
  show "generate_task_with_chatgpt w goal =
      Inr [(py ''title'',
              JString (let ts = filter (\<lambda>l. contains (lower l) (py ''title''))
                                  (split cleaned (py ''\<newline>''))
                       in if ts = [] then py ''Daily Task'' else after_last_colon (last ts))),
           (py ''description'',
              JString (let ds = filter (\<lambda>l. \<not> contains (lower l) (py ''title'') \<and>
                                             contains (lower l) (py ''description''))
                                  (split cleaned (py ''\<newline>''))
                       in if ds = [] then py ''Task related to your goals''
                          else after_last_colon (last ds)))]"
    using assms(2,3)
    by (simp add: generate_task_with_chatgpt_def attempt_on_reply [OF assms(1)]
        parse_reply_def raise_bind_def fallback_scan_def scan_lines_last_match task_dict_def
        default_title_def default_description_def Let_def)
  show "after_last_colon line = strip_char 34 (strip (last (split line (py '':''))))"
    by (simp add: after_last_colon_def)
  show "sublist cleaned reply"
    using strip_fences_sublist [OF assms(2)] strip_sublist [of reply]
      sublist_order.order_trans by blast
next
  assume n: "\<not> startswith (strip reply) (py ''```'')"
  have "startswith (strip reply) (py ''```json'') \<Longrightarrow> startswith (strip reply) (py ''```'')"
    using startswith_longer [of "strip reply" "py ''```''" "py ''json''"]
    by (simp add: py_def)
  with n have nj: "\<not> startswith (strip reply) (py ''```json'')" by blast
  from assms(2) show "cleaned = strip reply"
    unfolding strip_fences_def by (simp only: n nj if_False sum.inject)
qed

theorem fallback_line_scan_witness:
  "strip_fences (strip mixed_reply) = Inr mixed_reply \<and>
   mixed_reply = strip mixed_reply \<and>
   json_loads (replying mixed_reply) mixed_reply = Inl JSONDecodeError \<and>
   generate_task_with_chatgpt (replying mixed_reply) (py ''Learn Spanish'') =
      Inr [(py ''title'', JString (py ''Pick a title for the essay'')),
           (py ''description'', JString (py ''Task related to your goals''))]"
proof -
  have c: "chat_completions_create (replying mixed_reply) (prompt_text (py ''Learn Spanish'')) =
      Inr \<lparr>choices = Some mixed_reply # []\<rparr>"
    by (simp add: replying_def sample_world_def)
  have f: "strip_fences (strip mixed_reply) = Inr mixed_reply"
    by code_simp
  have j: "json_loads (replying mixed_reply) mixed_reply = Inl JSONDecodeError"
    by code_simp
  have t: "(let ts = filter (\<lambda>l. contains (lower l) (py ''title''))
                                  (split mixed_reply (py ''\<newline>''))
            in if ts = [] then py ''Daily Task'' else after_last_colon (last ts))
           = py ''Pick a title for the essay''"
    by code_simp
  have d: "(let ds = filter (\<lambda>l. \<not> contains (lower l) (py ''title'') \<and>
                                   contains (lower l) (py ''description''))
                                  (split mixed_reply (py ''\<newline>''))
            in if ds = [] then py ''Task related to your goals''
               else after_last_colon (last ds))
           = py ''Task related to your goals''"
    by code_simp
  from fallback_line_scan [OF c f j, THEN conjunct1]
  have "generate_task_with_chatgpt (replying mixed_reply) (py ''Learn Spanish'') =
      Inr [(py ''title'', JString (py ''Pick a title for the essay'')),
           (py ''description'', JString (py ''Task related to your goals''))]"
    unfolding t d .
  moreover have "\<not> startswith (strip mixed_reply) (py ''```'')"
    by code_simp
  with fallback_line_scan [OF c f j, THEN conjunct2, THEN conjunct2, THEN conjunct2]
  have "mixed_reply = strip mixed_reply" by blast
  ultimately show ?thesis using f j by blast
qed

theorem fallback_line_scan_counterexample:
  "json_loads (replying mixed_reply) mixed_reply = Inl JSONDecodeError \<and>
   generate_task_with_chatgpt (replying mixed_reply) (py ''Learn Spanish'') =
      Inr [(py ''title'', JString (py ''Pick a title for the essay'')),
           (py ''description'', JString (py ''Task related to your goals''))] \<and>
   spec_fallback mixed_reply =
      [(py ''title'', JString (py ''Pick a title for the essay'')),
       (py ''description'', JString (py ''Pick a title for the essay''))] \<and>
   strip_fences (strip fenced_lines_reply) = Inr (py ''Title: Walk'') \<and>
   json_loads (replying fenced_lines_reply) (py ''Title: Walk'') = Inl JSONDecodeError \<and>
   generate_task_with_chatgpt (replying fenced_lines_reply) (py ''Learn Spanish'') =
      Inr [(py ''title'', JString (py ''Walk'')),
           (py ''description'', JString (py ''Task related to your goals''))] \<and>
   spec_fallback fenced_lines_reply =
      [(py ''title'', JString (py ''Run'')),
       (py ''description'', JString (py ''Task related to your goals''))]"
  by code_simp

end
